theory Spec2Isabelle
  imports Complex_Main "HOL-Library.AList"
begin

section \<open>Data model (httomo/common.py, httomo/utils.py)\<close>

text \<open>
  \<open>Pattern\<close> is the enumeration imported from \<open>httomo.utils\<close>; the sources use its three
  members \<open>Pattern.projection\<close>, \<open>Pattern.sinogram\<close> and \<open>Pattern.all\<close>.
\<close>

datatype Pattern = projection | sinogram | all

text \<open>
  Python values that travel through parameter dictionaries and the dataset registry.
  Arrays are opaque (type \<open>'a\<close>): the numerical content of a volume is outside the engine.
  \<open>PObj\<close> stands for any other object (a communicator, a path), by name.
  The distinction between \<open>tuple\<close> and \<open>list\<close> is kept, since \<open>type(v) is tuple\<close> marks a
  parameter sweep and \<open>type(v) is list\<close> marks a fanned-out dataset.
\<close>

datatype 'a pyval =
    PNone
  | PBool bool
  | PInt int
  | PFloat rat
  | PStr string
  | PTuple "'a pyval list"
  | PList "'a pyval list"
  | PArr 'a
  | PObj string

text \<open>
  The errors of the modelled code: every \<open>raise ValueError\<close> with the values its message
  is built from, and the errors Python raises itself (\<open>min\<close> of an empty list, unpacking
  the wrong number of values, a missing key or index, a call of \<open>None\<close>, an unbound
  local variable), and the failures of a broadcast.
\<close>

datatype message =
    TooManySweeps nat
  | InvalidPattern string string
  | InvalidSectionPattern
  | SweepOnSaver
  | SweepOnMultiOutput
  | InvalidMethodName string
  | MinOfEmpty
  | UnpackLength

datatype error =
    ValueError message
  | IndexError
  | KeyError string
  | TypeError
  | UnboundLocalError
  | MPIError
  | Stranded

type_synonym dtype = string

text \<open>
  The memory estimator contract of \<open>MethodFunc.calc_max_slices\<close>:
  \<open>(slice_dim, non_slice_dims_shape, dtype, available_memory)\<close> to
  \<open>(max_slices, dtype, non_slice_dims_shape)\<close>.
\<close>

type_synonym estimator = "nat \<Rightarrow> int \<times> int \<Rightarrow> dtype \<Rightarrow> int \<Rightarrow> int \<times> dtype \<times> (int \<times> int)"

text \<open>A dictionary with string keys, in insertion order.\<close>

type_synonym 'a pydict = "(string \<times> 'a pyval) list"

text \<open>
  A callable as the engine sees it: its \<open>__name__\<close> and the parameter names of its
  signature (\<open>inspect.signature(f).parameters\<close>).
\<close>

record pyfunc =
  func_name :: string
  func_params :: "string list"

text \<open>
  The wrapper callable \<open>func_wrapper(method_name, dict_params_method, **dict_httomo_params)\<close>.
\<close>

type_synonym 'a wrapper = "string \<Rightarrow> 'a pydict \<Rightarrow> 'a pydict \<Rightarrow> 'a pyval"

record 'a MethodFunc =
  "module_name" :: string
  method_func :: pyfunc
  wrapper_func :: "'a wrapper option"
  calc_max_slices :: "estimator option"
  parameters :: "'a pydict"
  pattern :: Pattern
  cpu :: bool
  gpu :: bool
  reslice_ahead :: bool
  is_loader :: bool
  is_last_method :: bool

record 'a PlatformSection =
  gpu :: bool
  pattern :: Pattern
  max_slices :: int
  methods :: "'a MethodFunc list"

section \<open>Reslice planner (task_runner.py, \<open>_check_if_should_reslice\<close>)\<close>

text \<open>
  The \<open>for x, _ in enumerate(methods)\<close> loop, with \<open>current_pattern\<close> as the loop state.
  An entry is replaced by a copy with \<open>reslice_ahead=True\<close> exactly when its pattern
  differs from \<open>current_pattern\<close> and is not \<open>Pattern.all\<close>; every other entry is kept as
  it came in.
\<close>

fun reslice_loop :: "Pattern \<Rightarrow> 'a MethodFunc list \<Rightarrow> 'a MethodFunc list" where
  "reslice_loop current_pattern [] = []"
| "reslice_loop current_pattern (m # ms) =
     (if MethodFunc.pattern m \<noteq> current_pattern \<and> MethodFunc.pattern m \<noteq> all
      then m\<lparr>reslice_ahead := True\<rparr> # reslice_loop (MethodFunc.pattern m) ms
      else m # reslice_loop current_pattern ms)"

text \<open>\<open>methods[0]\<close> raises \<open>IndexError\<close> on an empty list.\<close>

definition check_if_should_reslice :: "'a MethodFunc list \<Rightarrow> error + 'a MethodFunc list" where
  "check_if_should_reslice ms =
     (case ms of
        [] \<Rightarrow> Inl IndexError
      | m0 # _ \<Rightarrow> Inr (reslice_loop (MethodFunc.pattern m0) ms))"

text \<open>\<open>reslice_info.reslice_bool_list = [m.reslice_ahead for m in method_funcs]\<close> (run_tasks).\<close>

definition reslice_bool_list_of :: "'a MethodFunc list \<Rightarrow> bool list" where
  "reslice_bool_list_of method_funcs = map reslice_ahead method_funcs"

text \<open>
  A step as \<open>_get_method_funcs\<close> constructs it before planning (\<open>reslice_ahead=False\<close>,
  \<open>pattern\<close> then set by \<open>_assign_pattern_to_method\<close>); the device flag, the pattern and
  the estimator are left open.
\<close>

definition step_on :: "bool \<Rightarrow> Pattern \<Rightarrow> estimator option \<Rightarrow> 'a MethodFunc" where
  "step_on on_gpu p est =
     \<lparr>module_name = ''httomolibgpu.misc.corr'',
      method_func = \<lparr>func_name = ''median_filter3d'',
                     func_params = [''data'', ''kernel_size'', ''dif'']\<rparr>,
      wrapper_func = None,
      MethodFunc.calc_max_slices = est,
      parameters = [(''method_name'', PStr ''median_filter3d'')],
      MethodFunc.pattern = p,
      MethodFunc.cpu = True,
      MethodFunc.gpu = on_gpu,
      reslice_ahead = False,
      is_loader = False,
      is_last_method = False\<rparr>"

definition step_with_pattern :: "Pattern \<Rightarrow> 'a MethodFunc" where
  "step_with_pattern p = step_on False p None"

text \<open>
  The property the planner is measured against, in the words of the specification: the
  number of genuine pattern transitions of the sequence once every \<open>All\<close> entry is elided.
\<close>

fun transitions :: "Pattern list \<Rightarrow> nat" where
  "transitions (a # b # ps) = (if a \<noteq> b then 1 else 0) + transitions (b # ps)"
| "transitions ps = 0"

definition genuine_transitions :: "'a MethodFunc list \<Rightarrow> nat" where
  "genuine_transitions ms = transitions (filter (\<lambda>p. p \<noteq> all) (map MethodFunc.pattern ms))"

definition count_true :: "bool list \<Rightarrow> nat" where
  "count_true bs = length (filter (\<lambda>b. b) bs)"

section \<open>Platform sectioner (task_runner.py, \<open>_determine_platform_sections\<close>)\<close>

text \<open>
  The \<open>for method in method_funcs\<close> loop. Its state is \<open>current_gpu\<close>, \<open>current_pattern\<close>,
  the section under construction and the sections closed so far (\<open>ret\<close>); the
  \<open>ret.append\<close> after the loop is the equation for the empty rest.
\<close>

fun sections_loop ::
  "bool \<Rightarrow> Pattern \<Rightarrow> 'a MethodFunc list \<Rightarrow> 'a PlatformSection list \<Rightarrow> 'a MethodFunc list
     \<Rightarrow> 'a PlatformSection list" where
  "sections_loop current_gpu current_pattern cur ret [] =
     ret @ [\<lparr>PlatformSection.gpu = current_gpu, PlatformSection.pattern = current_pattern,
             max_slices = 0, methods = cur\<rparr>]"
| "sections_loop current_gpu current_pattern cur ret (method # rest) =
     (if MethodFunc.gpu method = current_gpu
         \<and> (MethodFunc.pattern method = current_pattern
              \<or> MethodFunc.pattern method = all
              \<or> current_pattern = all)
      then sections_loop current_gpu
             (if current_pattern = all \<and> MethodFunc.pattern method \<noteq> all
              then MethodFunc.pattern method else current_pattern)
             (cur @ [method]) ret rest
      else sections_loop (MethodFunc.gpu method) (MethodFunc.pattern method) [method]
             (ret @ [\<lparr>PlatformSection.gpu = current_gpu,
                      PlatformSection.pattern = current_pattern, max_slices = 0, methods = cur\<rparr>])
             rest)"

text \<open>\<open>method_funcs[0]\<close> raises \<open>IndexError\<close> on an empty list.\<close>

definition determine_platform_sections ::
  "'a MethodFunc list \<Rightarrow> error + 'a PlatformSection list" where
  "determine_platform_sections method_funcs =
     (case method_funcs of
        [] \<Rightarrow> Inl IndexError
      | m0 # _ \<Rightarrow>
          Inr (sections_loop (MethodFunc.gpu m0) (MethodFunc.pattern m0) [] [] method_funcs))"

section \<open>Chunk sizer (task_runner.py, \<open>_update_max_slices\<close>)\<close>

text \<open>Python's \<open>min\<close> of a list; the empty list raises \<open>ValueError\<close>.\<close>

fun py_min :: "int list \<Rightarrow> error + int" where
  "py_min [] = Inl (ValueError MinOfEmpty)"
| "py_min (x # xs) = Inr (fold min xs x)"

text \<open>
  The loop over \<open>section.methods\<close> on the GPU path. The loop state is
  \<open>(data_type, output_dims, non_slice_dims_shape, max_slices_methods, idx)\<close>. Only a method
  with an estimator writes an entry of \<open>max_slices_methods\<close> and advances \<open>idx\<close>; every
  iteration ends with \<open>non_slice_dims_shape = output_dims\<close>. The list assignment raises
  \<open>IndexError\<close> out of range.
\<close>

type_synonym estimate_state = "dtype \<times> (int \<times> int) \<times> (int \<times> int) \<times> int list \<times> nat"

fun estimate_loop ::
  "nat \<Rightarrow> int \<Rightarrow> int \<Rightarrow> 'a MethodFunc list \<Rightarrow> estimate_state \<Rightarrow> error + estimate_state" where
  "estimate_loop slice_dim available_memory mx [] st = Inr st"
| "estimate_loop slice_dim available_memory mx (m # ms)
     (data_type, output_dims, non_slice_dims_shape, max_slices_methods, idx) =
     (case MethodFunc.calc_max_slices m of
        None \<Rightarrow>
          estimate_loop slice_dim available_memory mx ms
            (data_type, output_dims, output_dims, max_slices_methods, idx)
      | Some est \<Rightarrow>
          (case est slice_dim non_slice_dims_shape data_type available_memory of
             (slices_estimated, data_type', output_dims') \<Rightarrow>
               if idx < length max_slices_methods
               then estimate_loop slice_dim available_memory mx ms
                      (data_type', output_dims', output_dims',
                       max_slices_methods[idx := min mx slices_estimated], idx + 1)
               else Inl IndexError))"

text \<open>
  \<open>_update_max_slices(section, process_data_shape, input_data_type)\<close>. The section is
  mutated in place, so the model returns it next to the function's return value
  (\<open>None\<close> when the computation is skipped, else \<open>(data_type, output_dims)\<close>).
  \<open>available_memory\<close> stands for the result of \<open>_get_available_gpu_memory(10.0)\<close>.
\<close>

definition update_max_slices ::
  "int \<Rightarrow> 'a PlatformSection \<Rightarrow> (int \<times> int \<times> int) option \<Rightarrow> dtype option
     \<Rightarrow> error + ('a PlatformSection \<times> (dtype \<times> (int \<times> int)) option)" where
  "update_max_slices available_memory section process_data_shape input_data_type =
     (case (process_data_shape, input_data_type) of
        (Some (s0, s1, s2), Some dt) \<Rightarrow>
          (case (if PlatformSection.pattern section = sinogram then Inr (1, (s0, s2), s1)
                 else if PlatformSection.pattern section = projection
                         \<or> PlatformSection.pattern section = all
                      then Inr (0, (s1, s2), s0)
                 else Inl (ValueError InvalidSectionPattern)) of
             Inl e \<Rightarrow> Inl e
           | Inr (slice_dim, non_slice_dims_shape, mx) \<Rightarrow>
               if PlatformSection.gpu section
               then (case estimate_loop slice_dim available_memory mx (methods section)
                            (dt, non_slice_dims_shape, non_slice_dims_shape,
                             replicate (length (methods section)) mx, 0) of
                       Inl e \<Rightarrow> Inl e
                     | Inr (data_type, output_dims, _, max_slices_methods, _) \<Rightarrow>
                         (case py_min max_slices_methods of
                            Inl e \<Rightarrow> Inl e
                          | Inr least \<Rightarrow>
                              Inr (section\<lparr>max_slices := least\<rparr>,
                                   Some (data_type, output_dims))))
               else Inr (section\<lparr>max_slices := mx\<rparr>, Some (dt, non_slice_dims_shape)))
      | _ \<Rightarrow> Inr (section, None))"

text \<open>
  The reference the chunk sizer is measured against: the caps returned by the estimators
  of a section, each estimator fed the dtype and the non-slice shape its predecessor
  produced; a method without an estimator contributes no cap.
\<close>

fun section_caps :: "nat \<Rightarrow> int \<Rightarrow> 'a MethodFunc list \<Rightarrow> dtype \<Rightarrow> int \<times> int \<Rightarrow> int list" where
  "section_caps slice_dim available_memory [] dt dims = []"
| "section_caps slice_dim available_memory (m # ms) dt dims =
     (case MethodFunc.calc_max_slices m of
        None \<Rightarrow> section_caps slice_dim available_memory ms dt dims
      | Some est \<Rightarrow>
          (case est slice_dim dims dt available_memory of
             (cap, dt', dims') \<Rightarrow> cap # section_caps slice_dim available_memory ms dt' dims'))"

text \<open>The slicing axis of a pattern and the input's length along it.\<close>

definition slicing_axis :: "Pattern \<Rightarrow> nat" where
  "slicing_axis p = (if p = sinogram then 1 else 0)"

definition axis_length :: "Pattern \<Rightarrow> int \<times> int \<times> int \<Rightarrow> int" where
  "axis_length p shape = (case shape of (s0, s1, s2) \<Rightarrow> if p = sinogram then s1 else s0)"

definition non_slice_dims :: "Pattern \<Rightarrow> int \<times> int \<times> int \<Rightarrow> int \<times> int" where
  "non_slice_dims p shape =
     (case shape of (s0, s1, s2) \<Rightarrow> if p = sinogram then (s0, s2) else (s1, s2))"

text \<open>An estimator that returns a fixed cap and leaves dtype and shape as they are.\<close>

definition fixed_cap :: "int \<Rightarrow> estimator" where
  "fixed_cap c slice_dim dims dt available_memory = (c, dt, dims)"

section \<open>GPU wrapper (wrappers_class.py, \<open>HttomolibgpuWrapper.calc_max_slices\<close>)\<close>

text \<open>
  The metadata a httomolibgpu method exports through its decorator (\<open>func.meta\<close>), as far
  as the wrapper reads it. A signature is the ordered list of its parameters, each with
  its default; \<open>None\<close> stands for \<open>inspect.Parameter.empty\<close> (no default), which differs
  from a default that is Python's \<open>None\<close> (\<open>Some PNone\<close>). The estimator of the metadata
  takes the four contract arguments and the keyword arguments.
\<close>

record 'a MethodMeta =
  cpu :: bool
  gpu :: bool
  signature :: "(string \<times> 'a pyval option) list"
  calc_max_slices :: "nat \<Rightarrow> int \<times> int \<Rightarrow> dtype \<Rightarrow> int \<Rightarrow> 'a pydict \<Rightarrow> int \<times> dtype \<times> (int \<times> int)"

record 'a HttomolibgpuWrapper =
  cupyrun :: bool
  meta :: "'a MethodMeta"
  dict_params :: "'a pydict"

text \<open>
  The end of \<open>HttomolibgpuWrapper.__init__\<close>: \<open>self.meta = func.meta\<close>,
  \<open>self.cupyrun = self.meta.gpu\<close>, \<open>self.dict_params = {}\<close>.
\<close>

definition HttomolibgpuWrapper_init :: "'a MethodMeta \<Rightarrow> 'a HttomolibgpuWrapper" where
  "HttomolibgpuWrapper_init func_meta =
     \<lparr>cupyrun = MethodMeta.gpu func_meta, meta = func_meta, dict_params = []\<rparr>"

text \<open>
  The loop \<open>for name, par in sig.parameters.items()\<close> that fills \<open>default_args\<close>, and the
  dictionary display \<open>{**default_args, **self.dict_params}\<close>: the entries of the second
  dictionary are stored into a copy of the first, in order.
\<close>

definition default_args_of :: "(string \<times> 'a pyval option) list \<Rightarrow> 'a pydict" where
  "default_args_of sig =
     fold (\<lambda>(name, par_default) default_args.
             case par_default of
               None \<Rightarrow> default_args
             | Some d \<Rightarrow> AList.update name d default_args)
          sig []"

definition dict_merge :: "'a pydict \<Rightarrow> 'a pydict \<Rightarrow> 'a pydict" where
  "dict_merge d1 d2 = fold (\<lambda>(k, v) d. AList.update k v d) d2 d1"

definition wrapper_calc_max_slices ::
  "'a HttomolibgpuWrapper \<Rightarrow> nat \<Rightarrow> int \<times> int \<Rightarrow> dtype \<Rightarrow> int \<Rightarrow> int \<times> dtype \<times> (int \<times> int)" where
  "wrapper_calc_max_slices self slice_dim non_slice_dims_shape dt available_memory =
     (if \<not> cupyrun self then (1000000000, dt, non_slice_dims_shape)
      else
        let default_args = default_args_of (signature (meta self));
            kwargs = dict_merge default_args (dict_params self)
        in MethodMeta.calc_max_slices (meta self)
             slice_dim non_slice_dims_shape dt available_memory kwargs)"

text \<open>The parameters of a signature that have a default, with that default.\<close>

definition declared_defaults :: "(string \<times> 'a pyval option) list \<Rightarrow> 'a pydict" where
  "declared_defaults sig =
     concat (map (\<lambda>(name, d). case d of None \<Rightarrow> [] | Some v \<Rightarrow> [(name, v)]) sig)"

section \<open>Centering wrapper (wrappers_class.py, \<open>BaseWrapper._execute_rotation\<close>)\<close>

text \<open>
  Python's one-argument \<open>round\<close> (nearest integer, a tie goes to the even neighbour) and
  \<open>int\<close> on a float (truncation towards zero). Floats are modelled by exact rationals:
  half of an integer is exact in binary floating point, and the sums with \<open>0.1\<close> below lie
  strictly between two integers, far from any tie.
\<close>

definition py_round :: "rat \<Rightarrow> int" where
  "py_round x =
     (let f = \<lfloor>x\<rfloor>; d = x - of_int f
      in if d < 1 / 2 then f
         else if 1 / 2 < d then f + 1
         else if even f then f else f + 1)"

definition py_int :: "rat \<Rightarrow> int" where
  "py_int x = (if 0 \<le> x then \<lfloor>x\<rfloor> else \<lceil>x\<rceil>)"

text \<open>\<open>mid_rank = int(round(self.comm.size / 2) + 0.1)\<close>\<close>

definition mid_rank :: "nat \<Rightarrow> int" where
  "mid_rank comm_size = py_int (of_int (py_round (of_nat comm_size / 2)) + 1 / 10)"

text \<open>The rule as the specification writes it: \<open>round(workerCount/2 + 0.1)\<close>.\<close>

definition claimed_mid_rank :: "nat \<Rightarrow> int" where
  "claimed_mid_rank worker_count = py_round (of_nat worker_count / 2 + 1 / 10)"

text \<open>
  Unpacking \<open>(rot_center, overlap, side, overlap_position) = method_func(...)\<close>.
\<close>

fun unpack4 :: "'a pyval \<Rightarrow> error + ('a pyval \<times> 'a pyval \<times> 'a pyval \<times> 'a pyval)" where
  "unpack4 (PTuple [a, b, c, d]) = Inr (a, b, c, d)"
| "unpack4 (PList [a, b, c, d]) = Inr (a, b, c, d)"
| "unpack4 (PTuple xs) = Inl (ValueError UnpackLength)"
| "unpack4 (PList xs) = Inl (ValueError UnpackLength)"
| "unpack4 v = Inl TypeError"

text \<open>
  One worker's part of \<open>_execute_rotation\<close> up to the broadcast. The result tells whether
  the worker called the method (\<open>method_fn\<close>) and gives its local
  \<open>(rot_center, overlap, side, overlap_position)\<close>. \<open>shape1\<close> reads \<open>data.shape[1]\<close>.
\<close>

definition rotation_local ::
  "('a \<Rightarrow> 'a pydict \<Rightarrow> 'a pyval) \<Rightarrow> ('a \<Rightarrow> int) \<Rightarrow> string \<Rightarrow> 'a pydict \<Rightarrow> nat \<Rightarrow> nat \<Rightarrow> 'a
     \<Rightarrow> error + (bool \<times> 'a pyval \<times> 'a pyval \<times> 'a pyval \<times> 'a pyval)" where
  "rotation_local method_fn shape1 method_name dict_params_method comm_size rank data =
     (if int rank = mid_rank comm_size
      then (case map_of dict_params_method ''ind'' of
              None \<Rightarrow> Inl (KeyError ''ind'')
            | Some ind \<Rightarrow>
                let params = (if ind = PStr ''mid''
                              then AList.update ''ind'' (PInt (shape1 data div 2)) dict_params_method
                              else dict_params_method)
                in if method_name = ''find_center_360''
                   then (case unpack4 (method_fn data params) of
                           Inl e \<Rightarrow> Inl e
                         | Inr (rot_center, overlap, side, overlap_position) \<Rightarrow>
                             Inr (True, rot_center, overlap, side, overlap_position))
                   else Inr (True, method_fn data params, PInt 0, PInt 0, PInt 0))
      else Inr (False, PInt 0, PInt 0, PInt 0, PInt 0))"

text \<open>
  \<open>comm.bcast(value, root=mid_rank)\<close>: every worker receives the value the root passes in.
  A root outside the communicator is an MPI error; a root that raised before the
  broadcast never arrives, and the workers waiting for it are stranded.
\<close>

definition bcast :: "(nat \<Rightarrow> error + 'v) \<Rightarrow> int \<Rightarrow> nat \<Rightarrow> error + 'v" where
  "bcast contributed root_rank comm_size =
     (if 0 \<le> root_rank \<and> root_rank < int comm_size
      then (case contributed (nat root_rank) of Inl e \<Rightarrow> Inl Stranded | Inr v \<Rightarrow> Inr v)
      else Inl MPIError)"

text \<open>
  \<open>_execute_rotation\<close> as worker \<open>rank\<close> of \<open>comm_size\<close> workers runs it; \<open>datas r\<close> is the
  block of data worker \<open>r\<close> holds.
\<close>

definition execute_rotation ::
  "('a \<Rightarrow> 'a pydict \<Rightarrow> 'a pyval) \<Rightarrow> ('a \<Rightarrow> int) \<Rightarrow> string \<Rightarrow> 'a pydict \<Rightarrow> nat \<Rightarrow> (nat \<Rightarrow> 'a) \<Rightarrow> nat
     \<Rightarrow> error + 'a pyval" where
  "execute_rotation method_fn shape1 method_name dict_params_method comm_size datas rank =
     (let local = (\<lambda>r. rotation_local method_fn shape1 method_name dict_params_method
                          comm_size r (datas r))
      in case local rank of
           Inl e \<Rightarrow> Inl e
         | Inr _ \<Rightarrow>
             if method_name = ''find_center_vo''
             then bcast (\<lambda>r. map_sum id (\<lambda>(_, rot_center, _). rot_center) (local r))
                    (mid_rank comm_size) comm_size
             else if method_name = ''find_center_360''
             then bcast (\<lambda>r. map_sum id (\<lambda>(_, rot_center, overlap, side, overlap_position).
                                             PTuple [rot_center, overlap, side, overlap_position])
                                 (local r))
                    (mid_rank comm_size) comm_size
             else Inl (ValueError (InvalidMethodName method_name)))"

section \<open>Executor (task_runner.py, \<open>run_method\<close>)\<close>

record ResliceInfo =
  count :: int
  has_warn_printed :: bool
  reslice_bool_list :: "bool list option"
  reslice_dir :: "string option"

text \<open>
  An entry of \<open>run_method_info.data_out\<close> is one dataset name or, for a method with
  several outputs, a list of names.
\<close>

datatype out_dataset = OutName string | OutNames "string list"

record 'a RunMethodInfo =
  dict_params_method :: "'a pydict"
  data_in :: "string list"
  data_out :: "out_dataset list"
  should_reslice :: bool
  dict_httomo_params :: "'a pydict"
  save_result :: bool
  current_slice_dim :: int
  next_slice_dim :: int
  task_idx :: int
  param_sweep_name :: "string option"
  param_sweep_vals :: "'a pyval list"
  package_name :: "string option"
  method_name :: "string option"

text \<open>
  What the run mutates: the dataset registry \<open>dict_datasets_pipeline\<close>, the statistics of
  the current task (\<open>glob_stats\<close>), and, added by the model, the calls made to the
  collaborators that touch data, oldest first.
\<close>

datatype 'a call =
    CallLoader "'a pydict"
  | CallReslice "'a pyval" int int "string option"
  | CallStats "'a pyval"
  | CallWrapper string "'a pydict" "'a pydict"

record 'a run_state =
  dict_datasets_pipeline :: "string \<rightharpoonup> 'a pyval"
  glob_stats :: "string \<rightharpoonup> 'a pyval list"
  calls :: "'a call list"

record 'a LoaderData =
  data :: "'a pyval"
  flats :: "'a pyval"
  darks :: "'a pyval"
  angles :: "'a pyval"

text \<open>
  The collaborators the executor calls and whose code is not part of it: the reslice
  transport (\<open>reslice\<close>, \<open>reslice_filebased\<close>, each reduced to the array it returns), the
  statistics (\<open>min_max_mean_std\<close>), the methods database (\<open>get_method_info\<close>), the loader,
  and \<open>prerun_method\<close> and \<open>postrun_method\<close>. \<open>prerun_method\<close> is given by the
  \<open>run_method_info\<close> and \<open>reslice_info\<close> it leaves behind, \<open>postrun_method\<close> by what it
  leaves in the registry. \<open>comm_size\<close> and \<open>cpu_count\<close> are \<open>comm.size\<close> and
  \<open>multiprocessing.cpu_count()\<close>.
\<close>

record 'a collaborators =
  reslice :: "'a pyval \<Rightarrow> int \<Rightarrow> int \<Rightarrow> 'a pyval"
  reslice_filebased :: "'a pyval \<Rightarrow> int \<Rightarrow> int \<Rightarrow> string \<Rightarrow> 'a pyval"
  min_max_mean_std :: "'a pyval \<Rightarrow> 'a pyval"
  get_method_info :: "string \<Rightarrow> string \<Rightarrow> string \<Rightarrow> string"
  loader_func :: "'a pydict \<Rightarrow> 'a LoaderData"
  prerun_method ::
    "nat \<Rightarrow> bool \<Rightarrow> (string list \<times> 'a pyval) list \<Rightarrow> 'a MethodFunc \<Rightarrow> 'a MethodFunc
       \<Rightarrow> 'a MethodFunc option \<Rightarrow> (string \<rightharpoonup> 'a pyval) \<Rightarrow> (string \<rightharpoonup> 'a pyval list)
       \<Rightarrow> ResliceInfo \<Rightarrow> 'a RunMethodInfo \<times> ResliceInfo"
  postrun_method ::
    "'a RunMethodInfo \<Rightarrow> out_dataset \<Rightarrow> (string \<rightharpoonup> 'a pyval) \<Rightarrow> 'a MethodFunc \<Rightarrow> nat
       \<Rightarrow> (string \<rightharpoonup> 'a pyval)"
  comm_size :: nat
  cpu_count :: int

text \<open>Decimal digits of a number, for the f-string \<open>f"images_{i}"\<close>.\<close>

function str_of_nat :: "nat \<Rightarrow> string" where
  "str_of_nat n =
     (if n < 10 then [''0123456789'' ! n]
      else str_of_nat (n div 10) @ [''0123456789'' ! (n mod 10)])"
  by pat_completeness auto
termination
  by (relation "measure id") auto

declare str_of_nat.simps [simp del]

text \<open>
  The arrays a stored value stands for: its elements when \<open>type(v) is list\<close>, else the
  value itself.
\<close>

fun arrays_of :: "'a pyval \<Rightarrow> 'a pyval list" where
  "arrays_of (PList xs) = xs"
| "arrays_of v = [v]"

text \<open>\<open>isinstance(out_dataset, list)\<close>\<close>

fun is_name_list :: "out_dataset \<Rightarrow> bool" where
  "is_name_list (OutNames ns) = True"
| "is_name_list (OutName n) = False"

text \<open>
  Truth value of \<open>run_method_info.param_sweep_name\<close> in \<open>if run_method_info.param_sweep_name\<close>:
  \<open>None\<close> and the empty string are false.
\<close>

fun sweep_active :: "string option \<Rightarrow> bool" where
  "sweep_active None = False"
| "sweep_active (Some n) = (n \<noteq> [])"

text \<open>
  The choice of \<open>arrs\<close> at the head of the loop over \<open>data_in\<close>. For the saver the sweep
  is refused before the registry is read; a name missing from the registry raises
  \<open>KeyError\<close>.
\<close>

definition input_arrays ::
  "string \<Rightarrow> 'a RunMethodInfo \<Rightarrow> (string \<rightharpoonup> 'a pyval) \<Rightarrow> string \<Rightarrow> error + 'a pyval list" where
  "input_arrays mname info registry in_dataset =
     (if mname = ''save_to_images''
      then (if param_sweep_name info \<noteq> None then Inl (ValueError SweepOnSaver)
            else (case registry in_dataset of
                    None \<Rightarrow> Inl (KeyError in_dataset)
                  | Some v \<Rightarrow> Inr (arrays_of v)))
      else (case registry in_dataset of
              None \<Rightarrow> Inl (KeyError in_dataset)
            | Some v \<Rightarrow>
                if sweep_active (param_sweep_name info) then Inr [v] else Inr (arrays_of v)))"

text \<open>
  \<open>if run_method_info.should_reslice: ...\<close> inside the loop over \<open>arrs\<close>: the array is
  resliced in memory or through \<open>reslice_dir\<close>, stored back under the input name (at
  position \<open>i\<close> when the stored value is a list) and used from then on.
\<close>

definition reslice_step ::
  "'a collaborators \<Rightarrow> 'a RunMethodInfo \<Rightarrow> ResliceInfo \<Rightarrow> string \<Rightarrow> nat \<Rightarrow> 'a pyval \<Rightarrow> 'a run_state
     \<Rightarrow> error option \<times> 'a pyval \<times> 'a run_state" where
  "reslice_step env info reslice_info in_dataset i arr s =
     (if should_reslice info
      then
        (let resliced_data =
               (case reslice_dir reslice_info of
                  None \<Rightarrow> reslice env arr (current_slice_dim info) (next_slice_dim info)
                | Some dir \<Rightarrow>
                    reslice_filebased env arr (current_slice_dim info) (next_slice_dim info) dir);
             s1 = s\<lparr>calls := calls s @ [CallReslice arr (current_slice_dim info)
                                           (next_slice_dim info) (reslice_dir reslice_info)]\<rparr>
         in (case dict_datasets_pipeline s1 in_dataset of
               None \<Rightarrow> (Some (KeyError in_dataset), arr, s1)
             | Some (PList xs) \<Rightarrow>
                 if i < length xs
                 then (None, resliced_data,
                       s1\<lparr>dict_datasets_pipeline :=
                            (dict_datasets_pipeline s1)(in_dataset \<mapsto> PList (xs[i := resliced_data]))\<rparr>)
                 else (Some IndexError, arr, s1)
             | Some v \<Rightarrow>
                 (None, resliced_data,
                  s1\<lparr>dict_datasets_pipeline :=
                       (dict_datasets_pipeline s1)(in_dataset \<mapsto> resliced_data)\<rparr>)))
      else (None, arr, s))"

text \<open>
  \<open>if "glob_stats" in signature(current_func.method_func).parameters: ...\<close>: the statistics
  of the array are appended to \<open>glob_stats[in_dataset]\<close> and passed on as a parameter.
\<close>

definition stats_step ::
  "'a collaborators \<Rightarrow> 'a MethodFunc \<Rightarrow> string \<Rightarrow> 'a pyval \<Rightarrow> 'a pydict \<Rightarrow> 'a run_state
     \<Rightarrow> error option \<times> 'a pydict \<times> 'a run_state" where
  "stats_step env current_func in_dataset arr params s =
     (if ''glob_stats'' \<in> set (func_params (method_func current_func))
      then
        (let stats = min_max_mean_std env arr;
             s1 = s\<lparr>calls := calls s @ [CallStats arr]\<rparr>
         in (case glob_stats s1 in_dataset of
               None \<Rightarrow> (Some (KeyError in_dataset), params, s1)
             | Some recorded \<Rightarrow>
                 (None, AList.update ''glob_stats'' stats params,
                  s1\<lparr>glob_stats := (glob_stats s1)(in_dataset \<mapsto> recorded @ [stats])\<rparr>)))
      else (None, params, s))"

text \<open>
  The loop \<open>for val in run_method_info.param_sweep_vals\<close>: the swept parameter is set to
  \<open>val\<close>, the wrapper is called and its result appended to \<open>out\<close>. The loop state is
  \<open>(dict_params_method, out, calls)\<close>.
\<close>

fun sweep_loop ::
  "'a wrapper \<Rightarrow> string \<Rightarrow> string \<Rightarrow> 'a pydict \<Rightarrow> 'a pyval list
     \<Rightarrow> 'a pydict \<times> 'a pyval list \<times> 'a call list \<Rightarrow> 'a pydict \<times> 'a pyval list \<times> 'a call list" where
  "sweep_loop func_wrapper mname sweep_name httomo [] st = st"
| "sweep_loop func_wrapper mname sweep_name httomo (val # vals) (params, out, made) =
     (let params' = AList.update sweep_name val params;
          res = func_wrapper mname params' httomo
      in sweep_loop func_wrapper mname sweep_name httomo vals
           (params', out @ [res], made @ [CallWrapper mname params' httomo]))"

text \<open>
  Storing the result of a call without a sweep. A tuple or list is spread over
  \<open>zip(res, out_dataset)\<close> (a single name is then iterated character by character); any
  other result goes under the output name, at position \<open>i\<close> when the value stored there
  is a list. A list of names cannot be a dictionary key (\<open>TypeError\<close>).
\<close>

definition store_result ::
  "out_dataset \<Rightarrow> nat \<Rightarrow> 'a pyval \<Rightarrow> (string \<rightharpoonup> 'a pyval) \<Rightarrow> error + (string \<rightharpoonup> 'a pyval)" where
  "store_result out_ds i res registry =
     (let spread = (\<lambda>vals.
            Inr (fold (\<lambda>(val, dataset) d. d(dataset \<mapsto> val))
                   (zip vals (case out_ds of OutName n \<Rightarrow> map (\<lambda>c. [c]) n | OutNames ns \<Rightarrow> ns))
                   registry))
      in (case res of
            PTuple vals \<Rightarrow> spread vals
          | PList vals \<Rightarrow> spread vals
          | _ \<Rightarrow>
              (case out_ds of
                 OutNames ns \<Rightarrow> Inl TypeError
               | OutName n \<Rightarrow>
                   (case registry n of
                      None \<Rightarrow> Inl (KeyError n)
                    | Some (PList xs) \<Rightarrow>
                        if i < length xs then Inr (registry(n \<mapsto> PList (xs[i := res])))
                        else Inl IndexError
                    | Some v \<Rightarrow> Inr (registry(n \<mapsto> res))))))"

type_synonym 'a loop_state = "'a pydict \<times> 'a pydict \<times> 'a pyval list \<times> 'a run_state"

text \<open>
  \<open># Run the method\<close>: the saver is called for its effect alone; under a sweep the
  wrapper is called once per value and the list of results is stored under the output
  name; otherwise it is called once and its result stored.
\<close>

definition invoke_step ::
  "'a wrapper \<Rightarrow> string \<Rightarrow> 'a RunMethodInfo \<Rightarrow> out_dataset \<Rightarrow> nat \<Rightarrow> 'a loop_state
     \<Rightarrow> error option \<times> 'a loop_state" where
  "invoke_step func_wrapper mname info out_ds i st =
     (case st of (params, httomo, out, s) \<Rightarrow>
        (if mname = ''save_to_images''
         then (None, (params, httomo, out,
                      s\<lparr>calls := calls s @ [CallWrapper mname params httomo]\<rparr>))
         else if sweep_active (param_sweep_name info)
         then
           (case sweep_loop func_wrapper mname (the (param_sweep_name info)) httomo
                   (param_sweep_vals info) (params, out, calls s) of
              (params3, out3, made3) \<Rightarrow>
                (case out_ds of
                   OutNames ns \<Rightarrow> (Some TypeError, (params3, httomo, out3, s\<lparr>calls := made3\<rparr>))
                 | OutName n \<Rightarrow>
                     (None, (params3, httomo, out3,
                             s\<lparr>calls := made3,
                               dict_datasets_pipeline :=
                                 (dict_datasets_pipeline s)(n \<mapsto> PList out3)\<rparr>))))
         else
           (let res = func_wrapper mname params httomo;
                s3 = s\<lparr>calls := calls s @ [CallWrapper mname params httomo]\<rparr>
            in (case store_result out_ds i res (dict_datasets_pipeline s3) of
                  Inl e \<Rightarrow> (Some e, (params, httomo, out, s3))
                | Inr registry \<Rightarrow>
                    (None, (params, httomo, out, s3\<lparr>dict_datasets_pipeline := registry\<rparr>))))))"

text \<open>
  The body of \<open>for i, arr in enumerate(arrs)\<close>. The loop state is
  \<open>(dict_params_method, dict_httomo_params, out, state)\<close>.
\<close>

definition run_array ::
  "'a collaborators \<Rightarrow> 'a MethodFunc \<Rightarrow> 'a RunMethodInfo \<Rightarrow> ResliceInfo \<Rightarrow> string \<Rightarrow> out_dataset
     \<Rightarrow> nat \<Rightarrow> 'a pyval \<Rightarrow> 'a loop_state \<Rightarrow> error option \<times> 'a loop_state" where
  "run_array env current_func info reslice_info in_dataset out_ds i arr st =
     (case st of (params, httomo, out, s) \<Rightarrow>
        (let mname = func_name (method_func current_func);
             params1 = (if mname = ''save_to_images''
                        then AList.update ''subfolder_name'' (PStr (''images_'' @ str_of_nat i)) params
                        else params)
         in (case reslice_step env info reslice_info in_dataset i arr s of
               (Some e, arr1, s1) \<Rightarrow> (Some e, (params1, httomo, out, s1))
             | (None, arr1, s1) \<Rightarrow>
                 (let httomo1 = AList.update ''data'' arr1 httomo
                  in (case stats_step env current_func in_dataset arr1 params1 s1 of
                        (Some e, params2, s2) \<Rightarrow> (Some e, (params2, httomo1, out, s2))
                      | (None, params2, s2) \<Rightarrow>
                          (case wrapper_func current_func of
                             None \<Rightarrow> (Some TypeError, (params2, httomo1, out, s2))
                           | Some func_wrapper \<Rightarrow>
                               invoke_step func_wrapper mname info out_ds i
                                 (params2, httomo1, out, s2)))))))"

text \<open>\<open>for i, arr in enumerate(arrs)\<close>, from index \<open>i\<close> on; it stops at the first error.\<close>

fun run_arrays ::
  "'a collaborators \<Rightarrow> 'a MethodFunc \<Rightarrow> 'a RunMethodInfo \<Rightarrow> ResliceInfo \<Rightarrow> string \<Rightarrow> out_dataset
     \<Rightarrow> nat \<Rightarrow> 'a pyval list \<Rightarrow> 'a loop_state \<Rightarrow> error option \<times> 'a loop_state" where
  "run_arrays env current_func info reslice_info in_dataset out_ds i [] st = (None, st)"
| "run_arrays env current_func info reslice_info in_dataset out_ds i (arr # arrs) st =
     (case run_array env current_func info reslice_info in_dataset out_ds i arr st of
        (Some e, st') \<Rightarrow> (Some e, st')
      | (None, st') \<Rightarrow>
          run_arrays env current_func info reslice_info in_dataset out_ds (Suc i) arrs st')"

text \<open>
  The body of \<open>for in_dataset_idx, in_dataset in enumerate(run_method_info.data_in)\<close> up to
  the end of the loop over \<open>arrs\<close>: the input arrays are chosen, the output entry is read
  (\<open>IndexError\<close> past the end of \<open>data_out\<close>), a sweep on several outputs is refused, and
  the arrays are processed. The state is \<open>(dict_params_method, dict_httomo_params, state)\<close>.
  The loop variable \<open>i\<close> outlives the loop: \<open>last_i\<close> is its value on entry (\<open>None\<close> while
  unbound), and the result carries its value on exit.
\<close>

definition run_dataset ::
  "'a collaborators \<Rightarrow> 'a MethodFunc \<Rightarrow> 'a RunMethodInfo \<Rightarrow> ResliceInfo \<Rightarrow> nat \<Rightarrow> string
     \<Rightarrow> nat option \<Rightarrow> 'a pydict \<times> 'a pydict \<times> 'a run_state
     \<Rightarrow> error option \<times> ('a pydict \<times> 'a pydict \<times> 'a run_state) \<times> nat option" where
  "run_dataset env current_func info reslice_info in_dataset_idx in_dataset last_i st =
     (case st of (params, httomo, s) \<Rightarrow>
        (case input_arrays (func_name (method_func current_func)) info
                (dict_datasets_pipeline s) in_dataset of
           Inl e \<Rightarrow> (Some e, st, last_i)
         | Inr arrs \<Rightarrow>
             if length (data_out info) \<le> in_dataset_idx then (Some IndexError, st, last_i)
             else
               (let out_ds = data_out info ! in_dataset_idx
                in if is_name_list out_ds \<and> sweep_active (param_sweep_name info)
                   then (Some (ValueError SweepOnMultiOutput), st, last_i)
                   else
                     (case run_arrays env current_func info reslice_info in_dataset out_ds 0 arrs
                             (params, httomo, [], s) of
                        (err, (params', httomo', out, s')) \<Rightarrow>
                          (err, (params', httomo', s'),
                           if arrs = [] then last_i else Some (length arrs - 1))))))"

text \<open>
  The loop over \<open>data_in\<close> with what follows each dataset: the saver returns from
  \<open>run_method\<close> after its first dataset; otherwise \<open>postrun_method\<close> is called with the
  output entry and \<open>i\<close>, which raises \<open>UnboundLocalError\<close> while \<open>i\<close> is unbound.
\<close>

fun run_datasets ::
  "'a collaborators \<Rightarrow> 'a MethodFunc \<Rightarrow> 'a RunMethodInfo \<Rightarrow> ResliceInfo \<Rightarrow> nat \<Rightarrow> string list
     \<Rightarrow> nat option \<Rightarrow> 'a pydict \<times> 'a pydict \<times> 'a run_state \<Rightarrow> error option \<times> 'a run_state" where
  "run_datasets env current_func info reslice_info idx [] last_i (params, httomo, s) = (None, s)"
| "run_datasets env current_func info reslice_info idx (in_dataset # rest) last_i st =
     (case run_dataset env current_func info reslice_info idx in_dataset last_i st of
        (Some e, (params', httomo', s'), i') \<Rightarrow> (Some e, s')
      | (None, (params', httomo', s'), i') \<Rightarrow>
          if func_name (method_func current_func) = ''save_to_images'' then (None, s')
          else
            (case i' of
               None \<Rightarrow> (Some UnboundLocalError, s')
             | Some i \<Rightarrow>
                 run_datasets env current_func info reslice_info (Suc idx) rest (Some i)
                   (params', httomo',
                    s'\<lparr>dict_datasets_pipeline :=
                         postrun_method env
                           (info\<lparr>dict_params_method := params', dict_httomo_params := httomo'\<rparr>)
                           (data_out info ! idx) (dict_datasets_pipeline s') current_func i\<rparr>)))"

text \<open>
  \<open>run_method\<close>: \<open>prerun_method\<close> fills \<open>run_method_info\<close>, then the datasets are processed.
  The result is the error raised (if any), the state, and the \<open>reslice_info\<close> returned.
\<close>

definition run_method ::
  "'a collaborators \<Rightarrow> nat \<Rightarrow> bool \<Rightarrow> (string list \<times> 'a pyval) list \<Rightarrow> 'a MethodFunc \<Rightarrow> 'a MethodFunc
     \<Rightarrow> 'a MethodFunc option \<Rightarrow> ResliceInfo \<Rightarrow> 'a run_state
     \<Rightarrow> error option \<times> 'a run_state \<times> ResliceInfo" where
  "run_method env idx save_all misc_params current_func prev_func next_func reslice_info s =
     (case prerun_method env idx save_all misc_params current_func prev_func next_func
             (dict_datasets_pipeline s) (glob_stats s) reslice_info of
        (info, reslice_info') \<Rightarrow>
          (case run_datasets env current_func info reslice_info' 0 (data_in info) None
                  (dict_params_method info, dict_httomo_params info, s) of
             (err, s') \<Rightarrow> (err, s', reslice_info')))"

section \<open>Pipeline run (task_runner.py, \<open>run_tasks\<close>)\<close>

text \<open>
  \<open>_assign_pattern_to_method\<close>: the pattern string of the methods database is turned into
  a \<open>Pattern\<close>; any other string is a \<open>ValueError\<close>.
\<close>

definition assign_pattern_to_method ::
  "(string \<Rightarrow> string \<Rightarrow> string \<Rightarrow> string) \<Rightarrow> 'a MethodFunc \<Rightarrow> error + 'a MethodFunc" where
  "assign_pattern_to_method method_info method_function =
     (let pattern_str = method_info (module_name method_function)
                          (func_name (method_func method_function)) ''pattern''
      in if pattern_str = ''projection''
         then Inr (method_function\<lparr>MethodFunc.pattern := projection\<rparr>)
         else if pattern_str = ''sinogram''
         then Inr (method_function\<lparr>MethodFunc.pattern := sinogram\<rparr>)
         else if pattern_str = ''all''
         then Inr (method_function\<lparr>MethodFunc.pattern := all\<rparr>)
         else Inl (ValueError (InvalidPattern pattern_str (module_name method_function))))"

text \<open>
  \<open>for i, method_func in enumerate(method_funcs): method_funcs[i] = _assign_pattern_to_method(method_func)\<close>
\<close>

fun assign_patterns ::
  "(string \<Rightarrow> string \<Rightarrow> string \<Rightarrow> string) \<Rightarrow> 'a MethodFunc list \<Rightarrow> error + 'a MethodFunc list" where
  "assign_patterns method_info [] = Inr []"
| "assign_patterns method_info (m # ms) =
     (case assign_pattern_to_method method_info m of
        Inl e \<Rightarrow> Inl e
      | Inr m' \<Rightarrow>
          (case assign_patterns method_info ms of
             Inl e \<Rightarrow> Inl e
           | Inr ms' \<Rightarrow> Inr (m' # ms')))"

text \<open>\<open>_check_params_for_sweep\<close>: the number of parameters whose value is a tuple.\<close>

fun type_is_tuple :: "'a pyval \<Rightarrow> bool" where
  "type_is_tuple (PTuple xs) = True"
| "type_is_tuple v = False"

definition check_params_for_sweep :: "'a pydict \<Rightarrow> nat" where
  "check_params_for_sweep params =
     fold (\<lambda>(k, v) n. if type_is_tuple v then n + 1 else n) params 0"

text \<open>
  The planning part of \<open>run_tasks\<close>, from the assignment of the patterns to the check of
  the number of parameter sweeps. \<open>method_funcs[1:]\<close> is the list without its first entry.
  The plan is the annotated method list, the reslice plan and the platform sections.
\<close>

definition plan_pipeline ::
  "(string \<Rightarrow> string \<Rightarrow> string \<Rightarrow> string) \<Rightarrow> 'a MethodFunc list
     \<Rightarrow> error + ('a MethodFunc list \<times> bool list \<times> 'a PlatformSection list)" where
  "plan_pipeline method_info method_funcs0 =
     (case assign_patterns method_info method_funcs0 of
        Inl e \<Rightarrow> Inl e
      | Inr with_patterns \<Rightarrow>
          (case check_if_should_reslice with_patterns of
             Inl e \<Rightarrow> Inl e
           | Inr method_funcs \<Rightarrow>
               (case determine_platform_sections (drop 1 method_funcs) of
                  Inl e \<Rightarrow> Inl e
                | Inr platform_sections \<Rightarrow>
                    (let no_of_sweeps =
                           sum_list (map (\<lambda>m. check_params_for_sweep (parameters m)) method_funcs)
                     in if 1 < no_of_sweeps then Inl (ValueError (TooManySweeps no_of_sweeps))
                        else Inr (method_funcs, map reslice_ahead method_funcs,
                                  platform_sections)))))"

text \<open>
  The loader task. Its parameters receive \<open>in_file\<close>, \<open>dimension\<close>, \<open>pad\<close> and \<open>comm\<close>, and
  \<open>preview\<close> when absent; \<open>method_name\<close> is popped (\<open>KeyError\<close> when absent); the loader is
  called; its data goes into the registry under the loader's \<open>name\<close> parameter, next to
  \<open>flats\<close> and \<open>darks\<close> (the registry is keyed by strings: another kind of name is a
  \<open>TypeError\<close> here). The result is the error with the state it left, or the loader's
  method entry with its updated parameters, what the loader returned, and the state.
\<close>

definition run_loader ::
  "'a collaborators \<Rightarrow> 'a pyval \<Rightarrow> int \<Rightarrow> int \<Rightarrow> 'a MethodFunc \<Rightarrow> 'a run_state
     \<Rightarrow> (error \<times> 'a run_state) + ('a MethodFunc \<times> 'a LoaderData \<times> 'a run_state)" where
  "run_loader env in_file dimension pad loader s =
     (let params1 = fold (\<lambda>(k, v) d. AList.update k v d)
                      [(''in_file'', in_file), (''dimension'', PInt dimension),
                       (''pad'', PInt pad), (''comm'', PObj ''comm'')]
                      (parameters loader);
          params2 = (if ''preview'' \<notin> fst ` set params1
                     then AList.update ''preview'' (PList [PNone]) params1 else params1)
      in if ''method_name'' \<notin> fst ` set params2
         then Inl (KeyError ''method_name'', s)
         else
           (let params3 = AList.delete ''method_name'' params2;
                loader_info = loader_func env params3;
                s1 = s\<lparr>calls := calls s @ [CallLoader params3]\<rparr>
            in (case map_of params3 ''name'' of
                  None \<Rightarrow> Inl (KeyError ''name'', s1)
                | Some (PStr n) \<Rightarrow>
                    Inr (loader\<lparr>parameters := params3\<rparr>, loader_info,
                         s1\<lparr>dict_datasets_pipeline :=
                              (dict_datasets_pipeline s1)
                                (n \<mapsto> data loader_info, ''flats'' \<mapsto> flats loader_info,
                                 ''darks'' \<mapsto> darks loader_info)\<rparr>)
                | Some v \<Rightarrow> Inl (TypeError, s1))))"

text \<open>\<open>possible_extra_params\<close>, built from what the loader returned.\<close>

definition possible_extra_params :: "'a LoaderData \<Rightarrow> (string list \<times> 'a pyval) list" where
  "possible_extra_params loader_info =
     [([''darks''], darks loader_info),
      ([''flats''], flats loader_info),
      ([''angles'', ''angles_radians''], angles loader_info),
      ([''comm''], PObj ''comm''),
      ([''out_dir''], PObj ''run_out_dir''),
      ([''save_result''], PBool False),
      ([''reslice_ahead''], PBool False)]"

text \<open>
  The loop \<open>for idx, method_func in enumerate(method_funcs[1:])\<close>, over the indices
  \<open>idx + 1\<close> into \<open>method_funcs\<close>. The entries of \<open>method_funcs\<close> are objects whose parameter
  dictionaries are changed in place, so the list is part of the loop state, with the
  \<open>reslice_info\<close>, the statistics of all tasks and the state. \<open>run_method\<close> works on the
  statistics of its task, \<open>glob_stats[idx]\<close>, and its result is stored back there.
\<close>

type_synonym 'a tasks_state =
  "'a MethodFunc list \<times> ResliceInfo \<times> (string \<rightharpoonup> 'a pyval list) list \<times> 'a run_state"

fun run_steps ::
  "'a collaborators \<Rightarrow> bool \<Rightarrow> int \<Rightarrow> (string list \<times> 'a pyval) list \<Rightarrow> nat list \<Rightarrow> 'a tasks_state
     \<Rightarrow> error option \<times> 'a tasks_state" where
  "run_steps env save_all ncore misc_params [] st = (None, st)"
| "run_steps env save_all ncore misc_params (idx # rest) (method_funcs, reslice_info, all_stats, s) =
     (let current = method_funcs ! idx
      in if ''method_name'' \<notin> fst ` set (parameters current)
         then (Some (KeyError ''method_name''), (method_funcs, reslice_info, all_stats, s))
         else
           (let params1 = AList.delete ''method_name'' (parameters current);
                params2 = (if ''ncore'' \<in> set (func_params (method_func current))
                           then AList.update ''ncore'' (PInt ncore) params1 else params1);
                current' = current\<lparr>parameters := params2\<rparr>;
                method_funcs' = method_funcs[idx := current']
            in if length all_stats \<le> idx
               then (Some IndexError, (method_funcs', reslice_info, all_stats, s))
               else
                 (case run_method env idx save_all misc_params current'
                         (method_funcs' ! (idx - 1))
                         (if idx + 1 < length method_funcs' then Some (method_funcs' ! (idx + 1))
                          else None)
                         reslice_info (s\<lparr>glob_stats := all_stats ! idx\<rparr>) of
                    (Some e, s', reslice_info') \<Rightarrow>
                      (Some e, (method_funcs', reslice_info', all_stats[idx := glob_stats s'], s'))
                  | (None, s', reslice_info') \<Rightarrow>
                      run_steps env save_all ncore misc_params rest
                        (method_funcs', reslice_info', all_stats[idx := glob_stats s'], s'))))"

text \<open>
  \<open>run_tasks\<close>, from the point where the registry, the statistics and the method list have
  been built from the configuration: planning, the loader, the methods. The result is
  the error raised (if any), the statistics of all tasks and the state.
\<close>

definition run_tasks ::
  "'a collaborators \<Rightarrow> 'a pyval \<Rightarrow> int \<Rightarrow> int \<Rightarrow> int \<Rightarrow> bool \<Rightarrow> string option
     \<Rightarrow> 'a MethodFunc list \<Rightarrow> (string \<rightharpoonup> 'a pyval list) list \<Rightarrow> 'a run_state
     \<Rightarrow> error option \<times> (string \<rightharpoonup> 'a pyval list) list \<times> 'a run_state" where
  "run_tasks env in_file dimension pad ncore save_all dir method_funcs0 all_stats s =
     (case plan_pipeline (get_method_info env) method_funcs0 of
        Inl e \<Rightarrow> (Some e, all_stats, s)
      | Inr (method_funcs, plan, platform_sections) \<Rightarrow>
          (let ncore' = (if comm_size env = 1 then cpu_count env else ncore);
               reslice_info = \<lparr>count = 0, has_warn_printed = False,
                                reslice_bool_list = Some plan, reslice_dir = dir\<rparr>
           in (case run_loader env in_file dimension pad (hd method_funcs) s of
                 Inl (e, s1) \<Rightarrow> (Some e, all_stats, s1)
               | Inr (loader', loader_info, s1) \<Rightarrow>
                   (case run_steps env save_all ncore' (possible_extra_params loader_info)
                           [1..<length method_funcs]
                           (method_funcs[0 := loader'], reslice_info, all_stats, s1) of
                      (err, (method_funcs', reslice_info', all_stats', s')) \<Rightarrow>
                        (err, all_stats', s')))))"

section \<open>Examples\<close>

text \<open>
  Four steps: one on the CPU, then three on the GPU of which the last changes the pattern.
\<close>

definition four_steps :: "nat MethodFunc list" where
  "four_steps =
     [step_on False projection None, step_on True projection None,
      step_on True all None, step_on True sinogram None]"

text \<open>A GPU section of two steps whose estimators return the caps 120 and 45.\<close>

definition two_gpu_steps :: "nat PlatformSection" where
  "two_gpu_steps =
     \<lparr>PlatformSection.gpu = True, PlatformSection.pattern = projection, max_slices = 0,
      methods = [step_on True projection (Some (fixed_cap 120)),
                 step_on True projection (Some (fixed_cap 45))]\<rparr>"

text \<open>A CPU section whose only step nevertheless carries an estimator (cap 5).\<close>

definition cpu_step_with_estimator :: "nat PlatformSection" where
  "cpu_step_with_estimator =
     \<lparr>PlatformSection.gpu = False, PlatformSection.pattern = sinogram, max_slices = 0,
      methods = [step_on False sinogram (Some (fixed_cap 5))]\<rparr>"

text \<open>
  A wrapped GPU method with the signature of \<open>normalize\<close> as the test
  \<open>test_httomolibgpu_wrapper_max_slices_passes_kwargs\<close> shows it: three parameters without
  a default, four with one. Its estimator here ignores the keyword arguments.
\<close>

definition normalize_meta :: "nat MethodMeta" where
  "normalize_meta =
     \<lparr>cpu = False, gpu = True,
      signature = [(''data'', None), (''flats'', None), (''darks'', None),
                   (''cutoff'', Some (PFloat 10)), (''minus_log'', Some (PBool True)),
                   (''nonnegativity'', Some (PBool False)), (''remove_nans'', Some (PBool False))],
      calc_max_slices = (\<lambda>slice_dim dims dt available_memory kwargs.
                           (available_memory div 1000, dt, dims))\<rparr>"

definition normalize_wrapper :: "nat HttomolibgpuWrapper" where
  "normalize_wrapper =
     (HttomolibgpuWrapper_init normalize_meta)
       \<lparr>dict_params := [(''testarg'', PInt 1), (''minus_log'', PBool False)]\<rparr>"

text \<open>
  Five workers; worker \<open>r\<close> holds the block \<open>100 * r\<close>, and the centering method returns
  its block plus 7.
\<close>

definition block_of_worker :: "nat \<Rightarrow> int" where
  "block_of_worker r = 100 * int r"

definition centre_of_block :: "int \<Rightarrow> int pydict \<Rightarrow> int pyval" where
  "centre_of_block block params = PInt (block + 7)"

text \<open>The strings of a list of values.\<close>

fun dataset_names :: "'a pyval list \<Rightarrow> string list" where
  "dataset_names [] = []"
| "dataset_names (PStr n # vs) = n # dataset_names vs"
| "dataset_names (v # vs) = dataset_names vs"

text \<open>
  Modelled from the spec: \<open>prerun_method\<close> (its module, httomo/prerun.py, is not among the
  sources). Following the Run-Method Context of the specification, it resolves the input
  and output dataset names from the step's \<open>data_in\<close> and \<open>data_out\<close> parameters (an output
  given as a list of names is one entry, matched to the single input), records a
  tuple-valued parameter as the sweep (name and values), takes the reslice flag of the
  step from the plan and leaves the remaining parameters for the method. It serves as the
  \<open>prerun_method\<close> of the example environment only; the properties below hold for any.
\<close>

definition prerun_by_spec ::
    "nat \<Rightarrow> bool \<Rightarrow> (string list \<times> 'a pyval) list \<Rightarrow> 'a MethodFunc \<Rightarrow> 'a MethodFunc
       \<Rightarrow> 'a MethodFunc option \<Rightarrow> (string \<rightharpoonup> 'a pyval) \<Rightarrow> (string \<rightharpoonup> 'a pyval list)
       \<Rightarrow> ResliceInfo \<Rightarrow> 'a RunMethodInfo \<times> ResliceInfo" where
  "prerun_by_spec idx save_all misc_params current_func prev_func next_func registry stats
       reslice_info =
     (let params = parameters current_func;
          sweep = find (\<lambda>(k, v). type_is_tuple v) params;
          do_reslice = (case reslice_bool_list reslice_info of
                          None \<Rightarrow> False
                        | Some plan \<Rightarrow> idx < length plan \<and> plan ! idx)
      in (\<lparr>dict_params_method =
              filter (\<lambda>(k, v). k \<noteq> ''data_in'' \<and> k \<noteq> ''data_out'' \<and> \<not> type_is_tuple v) params,
            data_in = (case map_of params ''data_in'' of Some (PStr n) \<Rightarrow> [n] | _ \<Rightarrow> []),
            data_out = (case map_of params ''data_out'' of
                          Some (PStr n) \<Rightarrow> [OutName n]
                        | Some (PList ns) \<Rightarrow> [OutNames (dataset_names ns)]
                        | _ \<Rightarrow> []),
            should_reslice = do_reslice,
            dict_httomo_params = [],
            save_result = (save_all \<or> is_last_method current_func),
            current_slice_dim = int (slicing_axis (MethodFunc.pattern prev_func)),
            next_slice_dim = int (slicing_axis (MethodFunc.pattern current_func)),
            task_idx = int idx,
            param_sweep_name = map_option fst sweep,
            param_sweep_vals = (case sweep of Some (k, PTuple vals) \<Rightarrow> vals | _ \<Rightarrow> []),
            package_name = Some (takeWhile (\<lambda>c. c \<noteq> CHR ''.'') (module_name current_func)),
            method_name = Some (func_name (method_func current_func))\<rparr>,
          if do_reslice then reslice_info\<lparr>count := count reslice_info + 1\<rparr> else reslice_info))"

text \<open>
  An example environment over arrays that are plain integers: reslicing returns the array
  as it is, the loader returns the arrays 1 to 4, every method has pattern \<open>projection\<close>,
  and the wrapped method adds its \<open>size\<close> parameter to the array.
\<close>

definition add_size :: "int wrapper" where
  "add_size mname params httomo =
     (case (map_of httomo ''data'', map_of params ''size'') of
        (Some (PArr a), Some (PInt k)) \<Rightarrow> PArr (a + k)
      | _ \<Rightarrow> PNone)"

definition example_env :: "int collaborators" where
  "example_env =
     \<lparr>reslice = (\<lambda>arr cur nxt. arr),
      reslice_filebased = (\<lambda>arr cur nxt dir. arr),
      min_max_mean_std = (\<lambda>arr. PTuple [arr, arr, arr, arr]),
      get_method_info = (\<lambda>module method attribute. ''projection''),
      loader_func = (\<lambda>params. \<lparr>data = PArr 1, flats = PArr 2, darks = PArr 3, angles = PArr 4\<rparr>),
      prerun_method = prerun_by_spec,
      postrun_method = (\<lambda>info out_ds registry current_func i. registry),
      comm_size = 4,
      cpu_count = 8\<rparr>"

text \<open>
  Method entries as \<open>_get_method_funcs\<close> builds them: the loader, and a filter task whose
  \<open>size\<close> parameter, output entry and last-method flag are left open.
\<close>

definition loader_task :: "int MethodFunc" where
  "loader_task =
     \<lparr>module_name = ''httomo.data.hdf.loaders'',
      method_func = \<lparr>func_name = ''standard_tomo'',
                     func_params = [''name'', ''in_file'', ''dimension'', ''preview'', ''pad'',
                                    ''comm'']\<rparr>,
      wrapper_func = None,
      calc_max_slices = None,
      parameters = [(''name'', PStr ''tomo''), (''method_name'', PStr ''standard_tomo'')],
      MethodFunc.pattern = all,
      cpu = True,
      MethodFunc.gpu = False,
      reslice_ahead = False,
      is_loader = True,
      is_last_method = False\<rparr>"

definition filter_task :: "int pyval \<Rightarrow> int pyval \<Rightarrow> bool \<Rightarrow> int MethodFunc" where
  "filter_task size_param output is_last =
     \<lparr>module_name = ''tomopy.misc.corr'',
      method_func = \<lparr>func_name = ''median_filter'',
                     func_params = [''arr'', ''size'', ''axis'', ''ncore'']\<rparr>,
      wrapper_func = Some add_size,
      calc_max_slices = None,
      parameters = [(''data_in'', PStr ''tomo''), (''data_out'', output), (''size'', size_param),
                    (''method_name'', PStr ''median_filter'')],
      MethodFunc.pattern = all,
      cpu = True,
      MethodFunc.gpu = False,
      reslice_ahead = False,
      is_loader = False,
      is_last_method = is_last\<rparr>"

text \<open>A pipeline with two parameter sweeps, and one whose only sweep has two outputs.\<close>

definition two_sweeps_pipeline :: "int MethodFunc list" where
  "two_sweeps_pipeline =
     [loader_task,
      filter_task (PTuple [PInt 3, PInt 5]) (PStr ''tomo'') False,
      filter_task (PTuple [PInt 10, PInt 20, PInt 30]) (PStr ''tomo'') True]"

definition sweep_multi_output_pipeline :: "int MethodFunc list" where
  "sweep_multi_output_pipeline =
     [loader_task,
      filter_task (PInt 3) (PStr ''tomo'') False,
      filter_task (PTuple [PInt 10, PInt 20, PInt 30]) (PList [PStr ''low'', PStr ''high'']) True]"

text \<open>
  The registry and the statistics as \<open>_initialise_datasets_and_stats\<close> leaves them: every
  dataset name present with value \<open>None\<close>, one dictionary of statistics per task.
\<close>

definition initial_state :: "int run_state" where
  "initial_state =
     \<lparr>dict_datasets_pipeline = [''tomo'' \<mapsto> PNone, ''low'' \<mapsto> PNone, ''high'' \<mapsto> PNone],
      glob_stats = Map.empty,
      calls = []\<rparr>"

definition initial_stats :: "(string \<rightharpoonup> int pyval list) list" where
  "initial_stats = [[''tomo'' \<mapsto> []], [''tomo'' \<mapsto> []], [''tomo'' \<mapsto> []]]"

text \<open>
  The state in which the array 4 is stored under \<open>tomo\<close>, and the \<open>reslice_info\<close> of a plan
  without a reslice.
\<close>

definition loaded_state :: "int run_state" where
  "loaded_state = initial_state\<lparr>dict_datasets_pipeline := [''tomo'' \<mapsto> PArr 4]\<rparr>"

definition no_reslice_info :: ResliceInfo where
  "no_reslice_info =
     \<lparr>count = 0, has_warn_printed = False, reslice_bool_list = Some [False, False, False],
      reslice_dir = None\<rparr>"

section \<open>Properties of the reslice planner\<close>

lemma reslice_loop_length: "length (reslice_loop cur ms) = length ms"
  by (induction ms arbitrary: cur) simp_all

lemma reslice_loop_count:
  assumes "\<not> list_ex reslice_ahead ms" and "cur \<noteq> all"
  shows "count_true (map reslice_ahead (reslice_loop cur ms))
           = transitions (cur # filter (\<lambda>p. p \<noteq> all) (map MethodFunc.pattern ms))"
  using assms
proof (induction ms arbitrary: cur)
  case Nil
  then show ?case by (simp add: count_true_def)
next
  case (Cons m ms)
  from Cons.prems have rest: "\<not> list_ex reslice_ahead ms" and here: "\<not> reslice_ahead m"
    by simp_all
  show ?case
  proof (cases "MethodFunc.pattern m \<noteq> cur \<and> MethodFunc.pattern m \<noteq> all")
    case True
    then have "count_true (map reslice_ahead (reslice_loop (MethodFunc.pattern m) ms))
                 = transitions (MethodFunc.pattern m # filter (\<lambda>p. p \<noteq> all) (map MethodFunc.pattern ms))"
      using Cons.IH [OF rest] by simp
    with True show ?thesis by (auto simp add: count_true_def)
  next
    case False
    have ih: "count_true (map reslice_ahead (reslice_loop cur ms))
                 = transitions (cur # filter (\<lambda>p. p \<noteq> all) (map MethodFunc.pattern ms))"
      using Cons.IH [OF rest Cons.prems(2)] .
    from False here ih show ?thesis by (auto simp add: count_true_def)
  qed
qed

text \<open>
  When the first step has a concrete pattern and no step enters with \<open>reslice_ahead\<close>
  already set, the plan has one \<open>True\<close> per genuine transition.
\<close>

lemma reslice_plan_counts_transitions:
  assumes "check_if_should_reslice ms = Inr ms'"
    and "MethodFunc.pattern (hd ms) \<noteq> all"
    and "\<not> list_ex reslice_ahead ms"
  shows "count_true (reslice_bool_list_of ms') = genuine_transitions ms"
proof (cases ms)
  case Nil
  with assms(1) show ?thesis by (simp add: check_if_should_reslice_def)
next
  case (Cons m0 rest)
  with assms(1) have ms': "ms' = reslice_loop (MethodFunc.pattern m0) ms"
    by (simp add: check_if_should_reslice_def)
  from Cons assms(2) have c: "MethodFunc.pattern m0 \<noteq> all" by simp
  have "count_true (map reslice_ahead (reslice_loop (MethodFunc.pattern m0) ms))
          = transitions (MethodFunc.pattern m0 # filter (\<lambda>p. p \<noteq> all) (map MethodFunc.pattern ms))"
    using reslice_loop_count [OF assms(3) c] .
  also have "\<dots> = transitions (filter (\<lambda>p. p \<noteq> all) (map MethodFunc.pattern ms))"
    using Cons c by simp
  finally show ?thesis by (simp add: ms' reslice_bool_list_of_def genuine_transitions_def)
qed

text \<open>
  C1. Claim: for every step sequence the number of \<open>True\<close> entries of the reslice plan
  equals the number of genuine pattern transitions of the sequence with every \<open>All\<close> step
  elided. The planner starts \<open>current_pattern\<close> at the first step's pattern even when that
  pattern is \<open>All\<close>; the first concrete step after a leading \<open>All\<close> is then marked although
  the elided sequence has no transition there. For \<open>[All, Projection]\<close> the plan is
  \<open>[False, True]\<close> (one reslice) while the elided sequence \<open>[Projection]\<close> has none.
\<close>

theorem C1_leading_all_marks_reslice:
  "check_if_should_reslice [step_with_pattern all, step_with_pattern projection]
     = Inr [step_with_pattern all, (step_with_pattern projection)\<lparr>reslice_ahead := True\<rparr>]
   \<and> count_true (reslice_bool_list_of
        [step_with_pattern all, (step_with_pattern projection)\<lparr>reslice_ahead := True\<rparr>]) = 1
   \<and> genuine_transitions [step_with_pattern all, step_with_pattern projection] = 0"
  by (simp add: check_if_should_reslice_def step_with_pattern_def step_on_def count_true_def
      reslice_bool_list_of_def genuine_transitions_def)

text \<open>
  C2. For the pattern sequence \<open>[Projection, All, Projection, All, Sinogram]\<close> the planner
  yields the plan \<open>[False, False, False, False, True]\<close>.
\<close>

theorem C2_reslice_plan_example:
  "map_sum id reslice_bool_list_of
     (check_if_should_reslice
        (map step_with_pattern [projection, all, projection, all, sinogram]))
   = Inr [False, False, False, False, True]"
  by (simp add: check_if_should_reslice_def step_with_pattern_def step_on_def reslice_bool_list_of_def)

section \<open>Properties of the platform sectioner\<close>

lemma sections_loop_concat:
  "concat (map methods (sections_loop cg cp cur ret ms)) = concat (map methods ret) @ cur @ ms"
  by (induction ms arbitrary: cg cp cur ret) auto

lemma sections_loop_nonempty:
  "list_all (\<lambda>s. methods s \<noteq> []) ret \<Longrightarrow> cur \<noteq> []
     \<Longrightarrow> list_all (\<lambda>s. methods s \<noteq> []) (sections_loop cg cp cur ret ms)"
  by (induction ms arbitrary: cg cp cur ret) auto

text \<open>
  C3. For every non-empty list of steps the sectioner returns sections whose method lists,
  concatenated, are the original list in order, and no section has an empty method list.
\<close>

theorem C3_sections_partition:
  assumes "method_funcs \<noteq> []"
  shows "\<exists>secs. determine_platform_sections method_funcs = Inr secs
           \<and> concat (map methods secs) = method_funcs
           \<and> list_all (\<lambda>s. methods s \<noteq> []) secs"
proof -
  from assms obtain m0 rest where mf: "method_funcs = m0 # rest" by (cases method_funcs) auto
  let ?secs = "sections_loop (MethodFunc.gpu m0) (MethodFunc.pattern m0) [] [] method_funcs"
  have r: "determine_platform_sections method_funcs = Inr ?secs"
    by (simp add: determine_platform_sections_def mf)
  have c: "concat (map methods ?secs) = method_funcs"
    by (simp add: sections_loop_concat)
  have "?secs = sections_loop (MethodFunc.gpu m0)
                  (MethodFunc.pattern m0) [m0] [] rest"
    by (simp add: mf)
  then have n: "list_all (\<lambda>s. methods s \<noteq> []) ?secs"
    by (simp add: sections_loop_nonempty)
  from r c n show ?thesis by blast
qed

theorem C3_sections_partition_witness:
  "four_steps \<noteq> []
   \<and> map_sum id (map (\<lambda>s. (PlatformSection.gpu s, PlatformSection.pattern s, length (methods s))))
         (determine_platform_sections four_steps)
       = Inr [(False, projection, 1), (True, projection, 2), (True, sinogram, 1)]
   \<and> (\<exists>secs. determine_platform_sections four_steps = Inr secs
           \<and> concat (map methods secs) = four_steps
           \<and> list_all (\<lambda>s. methods s \<noteq> []) secs)"
  using C3_sections_partition [of four_steps]
  by (simp add: four_steps_def determine_platform_sections_def step_on_def)

section \<open>Properties of the chunk sizer\<close>

lemma estimate_loop_caps:
  assumes "idx + length (section_caps sd av ms dt dims) \<le> length msm"
  shows "\<exists>dt' dims'. estimate_loop sd av mx ms (dt, dims, dims, msm, idx)
           = Inr (dt', dims', dims',
                  take idx msm @ map (min mx) (section_caps sd av ms dt dims)
                    @ drop (idx + length (section_caps sd av ms dt dims)) msm,
                  idx + length (section_caps sd av ms dt dims))"
  using assms
proof (induction ms arbitrary: dt dims msm idx)
  case Nil
  then show ?case by simp
next
  case (Cons m ms)
  show ?case
  proof (cases "MethodFunc.calc_max_slices m")
    case None
    with Cons show ?thesis by simp
  next
    case (Some est)
    obtain cap dt1 dims1 where e: "est sd dims dt av = (cap, dt1, dims1)"
      by (cases "est sd dims dt av") auto
    from Cons.prems Some e have len: "Suc idx + length (section_caps sd av ms dt1 dims1) \<le> length msm"
      by simp
    then have len': "Suc idx + length (section_caps sd av ms dt1 dims1) \<le> length (msm[idx := min mx cap])"
      by simp
    from Cons.IH [OF len'] obtain dt' dims' where
      "estimate_loop sd av mx ms (dt1, dims1, dims1, msm[idx := min mx cap], Suc idx)
           = Inr (dt', dims', dims',
                  take (Suc idx) (msm[idx := min mx cap]) @ map (min mx) (section_caps sd av ms dt1 dims1)
                    @ drop (Suc idx + length (section_caps sd av ms dt1 dims1)) (msm[idx := min mx cap]),
                  Suc idx + length (section_caps sd av ms dt1 dims1))" by blast
    moreover have "idx < length msm" using len by simp
    moreover have "take (Suc idx) (msm[idx := min mx cap]) = take idx msm @ [min mx cap]"
      using \<open>idx < length msm\<close> by (simp add: take_Suc_conv_app_nth)
    ultimately show ?thesis using Some e by simp
  qed
qed

lemma section_caps_length: "length (section_caps sd av ms dt dims) \<le> length ms"
proof (induction ms arbitrary: dt dims)
  case Nil
  then show ?case by simp
next
  case (Cons m ms)
  show ?case
  proof (cases "MethodFunc.calc_max_slices m")
    case None
    then show ?thesis using Cons [of dt dims] by simp
  next
    case (Some est)
    obtain cap dt1 dims1 where e: "est sd dims dt av = (cap, dt1, dims1)"
      by (cases "est sd dims dt av") auto
    with Some show ?thesis using Cons [of dt1 dims1] by simp
  qed
qed

lemma py_min_Min: "xs \<noteq> [] \<Longrightarrow> py_min xs = Inr (Min (set xs))"
  by (cases xs) (simp_all add: Min.set_eq_fold [symmetric])

lemma Min_capped:
  assumes "caps \<noteq> [] \<or> k > 0"
  shows "Min (set (map (min mx) caps @ replicate k mx)) = Min (insert (mx::int) (set caps))"
proof (rule Min_eqI)
  show "finite (set (map (min mx) caps @ replicate k mx))" by simp
next
  fix y assume "y \<in> set (map (min mx) caps @ replicate k mx)"
  then consider c where "c \<in> set caps" "y = min mx c" | "y = mx" by auto
  then show "Min (insert mx (set caps)) \<le> y"
  proof cases
    case 1
    have "Min (insert mx (set caps)) \<le> mx" "Min (insert mx (set caps)) \<le> c"
      using 1(1) by simp_all
    with 1(2) show ?thesis by simp
  next
    case 2
    then show ?thesis by simp
  qed
next
  let ?M = "Min (insert mx (set caps))"
  have le: "?M \<le> mx" by simp
  have "?M \<in> insert mx (set caps)" by (rule Min_in) simp_all
  then consider "?M = mx" | "?M \<in> set caps" by blast
  then show "?M \<in> set (map (min mx) caps @ replicate k mx)"
  proof cases
    case 1
    show ?thesis
    proof (cases "k > 0")
      case True
      with 1 show ?thesis by simp
    next
      case False
      with assms obtain c cs where cs: "caps = c # cs" by (cases caps) auto
      have "?M \<le> c" by (rule Min_le) (simp_all add: cs)
      with 1 have "min mx c = ?M" by simp
      then have "?M \<in> min mx ` set caps" using cs by (metis image_eqI list.set_intros(1))
      then show ?thesis by simp
    qed
  next
    case 2
    from le have "min mx ?M = ?M" by simp
    with 2 have "?M \<in> min mx ` set caps" by (metis image_eqI)
    then show ?thesis by simp
  qed
qed

lemma fold_min_Min: "fold min xs (x::int) = Min (insert x (set xs))"
  using Min.set_eq_fold [of x xs] by simp

text \<open>
  C4 (as amended). For every non-empty GPU section with known input shape and dtype,
  \<open>max_slices\<close> becomes the minimum of the input's length along the slicing axis and the
  caps returned by the section's estimators, each estimator fed the dtype and non-slice
  shape produced by its predecessor.
\<close>

theorem C4_gpu_section_min_cap:
  assumes "PlatformSection.gpu section" and "methods section \<noteq> []"
  shows "\<exists>dt' dims'.
           update_max_slices available_memory section (Some shape) (Some dt)
             = Inr (section\<lparr>max_slices :=
                      fold min
                        (section_caps (slicing_axis (PlatformSection.pattern section)) available_memory
                           (methods section) dt (non_slice_dims (PlatformSection.pattern section) shape))
                        (axis_length (PlatformSection.pattern section) shape)\<rparr>,
                    Some (dt', dims'))"
proof -
  obtain s0 s1 s2 where shape: "shape = (s0, s1, s2)" by (cases shape) auto
  let ?sd = "slicing_axis (PlatformSection.pattern section)"
  let ?dims = "non_slice_dims (PlatformSection.pattern section) shape"
  let ?mx = "axis_length (PlatformSection.pattern section) shape"
  let ?ms = "methods section"
  let ?caps = "section_caps ?sd available_memory ?ms dt ?dims"
  have len: "0 + length ?caps \<le> length (replicate (length ?ms) ?mx)"
    using section_caps_length [of ?sd available_memory ?ms dt ?dims] by simp
  from estimate_loop_caps [OF len, of ?mx] obtain dt' dims' where
    loop: "estimate_loop ?sd available_memory ?mx ?ms (dt, ?dims, ?dims, replicate (length ?ms) ?mx, 0)
             = Inr (dt', dims', dims',
                    map (min ?mx) ?caps @ replicate (length ?ms - length ?caps) ?mx,
                    length ?caps)"
    by auto
  let ?final = "map (min ?mx) ?caps @ replicate (length ?ms - length ?caps) ?mx"
  have ne: "?final \<noteq> []" using assms(2) by (cases "?caps") auto
  have pos: "?caps \<noteq> [] \<or> length ?ms - length ?caps > 0"
    using assms(2) by (cases "?caps") auto
  have "py_min ?final = Inr (Min (set ?final))" using ne by (rule py_min_Min)
  also have "Min (set ?final) = Min (insert ?mx (set ?caps))" using pos by (rule Min_capped)
  also have "\<dots> = fold min ?caps ?mx" by (simp add: fold_min_Min)
  finally have least: "py_min ?final = Inr (fold min ?caps ?mx)" .
  have cases_pat: "PlatformSection.pattern section = sinogram \<or> PlatformSection.pattern section = projection \<or> PlatformSection.pattern section = all"
    by (cases "PlatformSection.pattern section") auto
  show ?thesis
    using assms(1) loop least cases_pat
    by (auto simp add: update_max_slices_def shape slicing_axis_def non_slice_dims_def axis_length_def)
qed

theorem C4_gpu_section_min_cap_witness:
  "PlatformSection.gpu two_gpu_steps \<and> methods two_gpu_steps \<noteq> []
   \<and> map_sum id (max_slices \<circ> fst)
         (update_max_slices 4000000000 two_gpu_steps (Some (1801, 2160, 2560)) (Some ''float32''))
       = Inr 45"
proof -
  have g: "PlatformSection.gpu two_gpu_steps" and n: "methods two_gpu_steps \<noteq> []"
    by (simp_all add: two_gpu_steps_def)
  from C4_gpu_section_min_cap [OF g n, of 4000000000 "(1801, 2160, 2560)" "''float32''"]
  obtain dt' dims' where
    "update_max_slices 4000000000 two_gpu_steps (Some (1801, 2160, 2560)) (Some ''float32'')
       = Inr (two_gpu_steps\<lparr>max_slices :=
                fold min
                  (section_caps (slicing_axis (PlatformSection.pattern two_gpu_steps)) 4000000000
                     (methods two_gpu_steps) ''float32''
                     (non_slice_dims (PlatformSection.pattern two_gpu_steps) (1801, 2160, 2560)))
                  (axis_length (PlatformSection.pattern two_gpu_steps) (1801, 2160, 2560))\<rparr>,
              Some (dt', dims'))"
    by blast
  then have "map_sum id (max_slices \<circ> fst)
         (update_max_slices 4000000000 two_gpu_steps (Some (1801, 2160, 2560)) (Some ''float32''))
       = Inr 45"
    by (simp add: two_gpu_steps_def step_on_def fixed_cap_def slicing_axis_def
        non_slice_dims_def axis_length_def)
  with g n show ?thesis by simp
qed

text \<open>
  C4, the claim as stated: two GPU steps whose estimators return the caps 120 and 45 would
  always give \<open>max_slices = 45\<close>. On a volume with only 30 slices along the slicing axis
  the section gets 30: every recorded entry is \<open>min(max_slices, slices_estimated)\<close>.
\<close>

theorem C4_cap_above_axis_length:
  "section_caps 0 4000000000 (methods two_gpu_steps) ''float32'' (2160, 2560) = [120, 45]
   \<and> map_sum id (max_slices \<circ> fst)
         (update_max_slices 4000000000 two_gpu_steps (Some (30, 2160, 2560)) (Some ''float32''))
       = Inr 30"
  by (simp add: update_max_slices_def two_gpu_steps_def step_on_def fixed_cap_def)

text \<open>
  C5 (as amended). For every CPU section with known input shape and dtype, \<open>max_slices\<close>
  becomes the input's length along the section's slicing axis (axis 1 for \<open>sinogram\<close>,
  axis 0 for \<open>projection\<close> and \<open>all\<close>), whatever estimators its steps carry.
\<close>

theorem C5_cpu_section_axis_length:
  assumes "\<not> PlatformSection.gpu section"
  shows "update_max_slices available_memory section (Some shape) (Some dt)
           = Inr (section\<lparr>max_slices := axis_length (PlatformSection.pattern section) shape\<rparr>,
                  Some (dt, non_slice_dims (PlatformSection.pattern section) shape))"
proof -
  obtain s0 s1 s2 where shape: "shape = (s0, s1, s2)" by (cases shape) auto
  have "PlatformSection.pattern section = sinogram
          \<or> PlatformSection.pattern section = projection
          \<or> PlatformSection.pattern section = all"
    by (cases "PlatformSection.pattern section") auto
  with assms show ?thesis
    by (auto simp add: update_max_slices_def shape non_slice_dims_def axis_length_def)
qed

theorem C5_cpu_section_axis_length_witness:
  "\<not> PlatformSection.gpu cpu_step_with_estimator
   \<and> list_all (\<lambda>m. MethodFunc.calc_max_slices m \<noteq> None) (methods cpu_step_with_estimator)
   \<and> map_sum id (max_slices \<circ> fst)
         (update_max_slices 4000000000 cpu_step_with_estimator (Some (1801, 2160, 2560))
            (Some ''uint16''))
       = Inr 2160"
  using C5_cpu_section_axis_length
          [of cpu_step_with_estimator 4000000000 "(1801, 2160, 2560)" "''uint16''"]
  by (simp add: cpu_step_with_estimator_def step_on_def axis_length_def)

text \<open>
  C5, the claim as stated: a known input shape alone would suffice. With the shape known
  and the dtype not (\<open>input_data_type is None\<close>) the function returns at once: the section
  is left as it was, with \<open>max_slices = 0\<close>, where the input has 2160 slices along the
  slicing axis of the section.
\<close>

theorem C5_unknown_dtype_skips:
  "update_max_slices 4000000000 cpu_step_with_estimator (Some (1801, 2160, 2560)) None
     = Inr (cpu_step_with_estimator, None)
   \<and> max_slices cpu_step_with_estimator = 0
   \<and> axis_length (PlatformSection.pattern cpu_step_with_estimator) (1801, 2160, 2560) = 2160"
  by (simp add: update_max_slices_def cpu_step_with_estimator_def axis_length_def)

section \<open>Properties of the GPU wrapper\<close>

lemma map_add_upd_left_commute:
  "k \<notin> dom n \<Longrightarrow> (m(k \<mapsto> v)) ++ n = m ++ (n(k \<mapsto> v))"
  by (auto simp add: map_add_def fun_eq_iff split: option.splits)

lemma map_of_fold_update:
  "distinct (map fst d2)
     \<Longrightarrow> map_of (fold (\<lambda>(k, v) d. AList.update k v d) d2 d1) = map_of d1 ++ map_of d2"
proof (induction d2 arbitrary: d1)
  case Nil
  then show ?case by simp
next
  case (Cons kv d2)
  obtain k v where kv: "kv = (k, v)" by (cases kv)
  from Cons.prems kv have d: "distinct (map fst d2)" and nk: "k \<notin> dom (map_of d2)"
    by (auto simp add: dom_map_of_conv_image_fst)
  have "map_of (fold (\<lambda>(k, v) d. AList.update k v d) d2 (AList.update k v d1))
          = map_of (AList.update k v d1) ++ map_of d2"
    using Cons.IH [OF d] .
  also have "\<dots> = (map_of d1)(k \<mapsto> v) ++ map_of d2" by (simp add: update_conv')
  also have "\<dots> = map_of d1 ++ (map_of d2)(k \<mapsto> v)" using nk by (rule map_add_upd_left_commute)
  finally show ?case by (simp only: kv fold_Cons comp_apply split_conv map_of.simps fst_conv snd_conv)
qed

lemma distinct_fold_update:
  "distinct (map fst d1) \<Longrightarrow> distinct (map fst (fold (\<lambda>(k, v) d. AList.update k v d) d2 d1))"
  by (induction d2 arbitrary: d1) (auto simp add: distinct_update)

lemma map_of_dict_merge:
  "distinct (map fst d2) \<Longrightarrow> map_of (dict_merge d1 d2) = map_of d1 ++ map_of d2"
  by (simp add: dict_merge_def map_of_fold_update)

lemma distinct_dict_merge:
  "distinct (map fst d1) \<Longrightarrow> distinct (map fst (dict_merge d1 d2))"
  by (simp add: dict_merge_def distinct_fold_update)

lemma default_args_fold:
  "distinct (map fst sig) \<Longrightarrow>
   map_of (fold (\<lambda>(name, par_default) default_args.
             case par_default of
               None \<Rightarrow> default_args
             | Some d \<Rightarrow> AList.update name d default_args) sig acc)
     = map_of acc ++ map_of (declared_defaults sig)
   \<and> (distinct (map fst acc) \<longrightarrow> distinct (map fst (fold (\<lambda>(name, par_default) default_args.
             case par_default of
               None \<Rightarrow> default_args
             | Some d \<Rightarrow> AList.update name d default_args) sig acc)))"
proof (induction sig arbitrary: acc)
  case Nil
  then show ?case by (simp add: declared_defaults_def)
next
  case (Cons p sig)
  obtain name d where p: "p = (name, d)" by (cases p)
  from Cons.prems p have ds: "distinct (map fst sig)" and nn: "name \<notin> fst ` set sig" by auto
  have sub: "fst ` set (declared_defaults sig) \<subseteq> fst ` set sig"
    by (auto simp add: declared_defaults_def split: option.splits) force
  show ?case
  proof (cases d)
    case None
    with Cons.IH [OF ds, of acc] p show ?thesis by (simp add: declared_defaults_def)
  next
    case (Some v)
    have nk: "name \<notin> dom (map_of (declared_defaults sig))"
      using nn sub by (auto simp add: dom_map_of_conv_image_fst)
    have dd: "declared_defaults (p # sig) = (name, v) # declared_defaults sig"
      by (simp add: declared_defaults_def p Some)
    have ih: "map_of (fold (\<lambda>(name, par_default) default_args.
             case par_default of
               None \<Rightarrow> default_args
             | Some d \<Rightarrow> AList.update name d default_args) sig (AList.update name v acc))
         = map_of (AList.update name v acc) ++ map_of (declared_defaults sig)"
      and ihd: "distinct (map fst (AList.update name v acc)) \<longrightarrow> distinct (map fst (fold (\<lambda>(name, par_default) default_args.
             case par_default of
               None \<Rightarrow> default_args
             | Some d \<Rightarrow> AList.update name d default_args) sig (AList.update name v acc)))"
      using Cons.IH [OF ds, of "AList.update name v acc"] by simp_all
    have "map_of (AList.update name v acc) ++ map_of (declared_defaults sig)
            = (map_of acc)(name \<mapsto> v) ++ map_of (declared_defaults sig)"
      by (simp add: update_conv')
    also have "\<dots> = map_of acc ++ (map_of (declared_defaults sig))(name \<mapsto> v)"
      using nk by (rule map_add_upd_left_commute)
    also have "\<dots> = map_of acc ++ map_of (declared_defaults (p # sig))"
      by (simp only: dd map_of.simps fst_conv snd_conv)
    finally have e: "map_of (AList.update name v acc) ++ map_of (declared_defaults sig)
                      = map_of acc ++ map_of (declared_defaults (p # sig))" .
    have step: "fold (\<lambda>(name, par_default) default_args.
             case par_default of
               None \<Rightarrow> default_args
             | Some d \<Rightarrow> AList.update name d default_args) (p # sig) acc
          = fold (\<lambda>(name, par_default) default_args.
             case par_default of
               None \<Rightarrow> default_args
             | Some d \<Rightarrow> AList.update name d default_args) sig (AList.update name v acc)"
      by (simp add: p Some)
    show ?thesis
      unfolding step using ih ihd e by (simp add: distinct_update)
  qed
qed

lemma map_of_default_args:
  "distinct (map fst sig) \<Longrightarrow> map_of (default_args_of sig) = map_of (declared_defaults sig)"
  using default_args_fold [of sig "[]"] by (simp add: default_args_of_def)

lemma distinct_default_args:
  "distinct (map fst sig) \<Longrightarrow> distinct (map fst (default_args_of sig))"
  using default_args_fold [of sig "[]"] by (simp add: default_args_of_def)

text \<open>
  C10. For a wrapped httomolibgpu method whose function supports the GPU,
  \<open>calc_max_slices\<close> calls the estimator of the method's metadata with the four contract
  arguments and with keyword arguments that hold the defaults of the method's signature
  overridden by the user's parameters.
\<close>

theorem C10_estimator_kwargs:
  assumes "MethodMeta.gpu func_meta"
    and "self = (HttomolibgpuWrapper_init func_meta)\<lparr>dict_params := user_params\<rparr>"
    and "distinct (map fst (signature func_meta))"
    and "distinct (map fst user_params)"
  shows "\<exists>kwargs.
           wrapper_calc_max_slices self slice_dim non_slice_dims_shape dt available_memory
             = MethodMeta.calc_max_slices func_meta slice_dim non_slice_dims_shape dt
                 available_memory kwargs
           \<and> distinct (map fst kwargs)
           \<and> map_of kwargs = map_of (declared_defaults (signature func_meta)) ++ map_of user_params"
proof -
  let ?kwargs = "dict_merge (default_args_of (signature func_meta)) user_params"
  have call: "wrapper_calc_max_slices self slice_dim non_slice_dims_shape dt available_memory
             = MethodMeta.calc_max_slices func_meta slice_dim non_slice_dims_shape dt
                 available_memory ?kwargs"
    using assms(1,2) by (simp add: wrapper_calc_max_slices_def HttomolibgpuWrapper_init_def)
  have d: "distinct (map fst ?kwargs)"
    using assms(3) by (simp add: distinct_dict_merge distinct_default_args)
  have m: "map_of ?kwargs = map_of (declared_defaults (signature func_meta)) ++ map_of user_params"
    using assms(3,4) by (simp add: map_of_dict_merge map_of_default_args)
  from call d m show ?thesis by blast
qed

theorem C10_estimator_kwargs_witness:
  "MethodMeta.gpu normalize_meta
   \<and> distinct (map fst (signature normalize_meta))
   \<and> distinct (map fst (dict_params normalize_wrapper))
   \<and> dict_merge (default_args_of (signature normalize_meta)) (dict_params normalize_wrapper)
       = [(''cutoff'', PFloat 10), (''minus_log'', PBool False), (''nonnegativity'', PBool False),
          (''remove_nans'', PBool False), (''testarg'', PInt 1)]
   \<and> (\<exists>kwargs.
         wrapper_calc_max_slices normalize_wrapper 0 (100, 100) ''uint8'' 50000
           = MethodMeta.calc_max_slices normalize_meta 0 (100, 100) ''uint8'' 50000 kwargs
         \<and> distinct (map fst kwargs)
         \<and> map_of kwargs
             = map_of (declared_defaults (signature normalize_meta))
                 ++ map_of (dict_params normalize_wrapper))"
proof -
  have g: "MethodMeta.gpu normalize_meta" by (simp add: normalize_meta_def)
  have w: "normalize_wrapper
             = (HttomolibgpuWrapper_init normalize_meta)
                 \<lparr>dict_params := dict_params normalize_wrapper\<rparr>"
    by (simp add: normalize_wrapper_def)
  have ds: "distinct (map fst (signature normalize_meta))" by (simp add: normalize_meta_def)
  have du: "distinct (map fst (dict_params normalize_wrapper))"
    by (simp add: normalize_wrapper_def)
  have k: "dict_merge (default_args_of (signature normalize_meta)) (dict_params normalize_wrapper)
       = [(''cutoff'', PFloat 10), (''minus_log'', PBool False), (''nonnegativity'', PBool False),
          (''remove_nans'', PBool False), (''testarg'', PInt 1)]"
    by (simp add: dict_merge_def default_args_of_def normalize_meta_def normalize_wrapper_def)
  from C10_estimator_kwargs [OF g w ds du, of 0 "(100, 100)" "''uint8''" 50000] g ds du k
  show ?thesis by blast
qed

section \<open>Properties of the centering wrapper\<close>

lemma py_int_above: "0 \<le> k \<Longrightarrow> py_int (of_int k + 1 / 10) = k"
  by (simp add: py_int_def) linarith

lemma py_round_even: "py_round (of_int k) = k"
  by (simp add: py_round_def)

lemma py_round_odd: "py_round (of_int k + 1 / 2) = (if even k then k else k + 1)"
proof -
  have f: "\<lfloor>rat_of_int k + 1 / 2\<rfloor> = k" by linarith
  show ?thesis by (simp add: py_round_def Let_def f)
qed

lemma half_of_nat:
  "(of_nat n :: rat) / 2 = (if even n then of_int (int (n div 2)) else of_int (int (n div 2)) + 1 / 2)"
proof (cases "even n")
  case True
  then obtain k where "n = 2 * k" by (auto elim: evenE)
  then show ?thesis by simp
next
  case False
  then obtain k where "n = 2 * k + 1" by (auto elim: oddE)
  then show ?thesis by (simp add: field_simps)
qed

lemma py_round_half: "py_round (of_nat n / 2) = int (if n mod 4 = 1 then n div 2 else (n + 1) div 2)"
proof (cases "even n")
  case True
  then have "py_round (of_nat n / 2) = int (n div 2)"
    by (simp only: half_of_nat if_True py_round_even)
  moreover from True have "n mod 4 \<noteq> 1" by presburger
  moreover from True have "(n + 1) div 2 = n div 2" by presburger
  ultimately show ?thesis by simp
next
  case False
  then have r: "py_round (of_nat n / 2) = (if even (int (n div 2)) then int (n div 2) else int (n div 2) + 1)"
    by (simp only: half_of_nat if_False py_round_odd)
  show ?thesis
  proof (cases "n mod 4 = 1")
    case True
    then have "even (n div 2)" by presburger
    with r True show ?thesis by simp
  next
    case F: False
    with False have "odd (n div 2)" and "(n + 1) div 2 = n div 2 + 1" by presburger+
    with r F show ?thesis by simp
  qed
qed

lemma mid_rank_eq: "mid_rank n = int (if n mod 4 = 1 then n div 2 else (n + 1) div 2)"
  unfolding mid_rank_def py_round_half by (rule py_int_above) simp

lemma mid_rank_in_range: "0 < n \<Longrightarrow> 0 \<le> mid_rank n \<and> mid_rank n < int n"
  unfolding mid_rank_eq by (auto split: if_splits) presburger

text \<open>
  C9 (as amended). Among \<open>n\<close> workers the coordinating rank is
  \<open>int(round(n / 2) + 0.1)\<close>, that is half the worker count with a tie rounded to the even
  neighbour; it is a rank of the communicator. A worker of another rank never calls the
  centering method. For \<open>find_center_vo\<close>, when the parameters hold the key \<open>ind\<close> that the
  coordinating worker reads, every worker returns the value the coordinating worker
  computed on its own block; without that key the coordinating worker raises \<open>KeyError\<close>
  and no other worker receives a value.
\<close>

theorem C9_coordinating_worker:
  assumes "0 < workers" and "rank < workers"
  shows "mid_rank workers
           = int (if workers mod 4 = 1 then workers div 2 else (workers + 1) div 2)
         \<and> 0 \<le> mid_rank workers \<and> mid_rank workers < int workers
         \<and> (int rank \<noteq> mid_rank workers \<longrightarrow>
              rotation_local method_fn shape1 centering_method params workers rank
                  (datas rank)
                = Inr (False, PInt 0, PInt 0, PInt 0, PInt 0))
         \<and> execute_rotation method_fn shape1 ''find_center_vo'' params workers
               datas rank
             = (case map_of params ''ind'' of
                  None \<Rightarrow>
                    if int rank = mid_rank workers then Inl (KeyError ''ind'') else Inl Stranded
                | Some ind \<Rightarrow>
                    Inr (method_fn (datas (nat (mid_rank workers)))
                           (if ind = PStr ''mid''
                            then AList.update ''ind''
                                   (PInt (shape1 (datas (nat (mid_rank workers))) div 2))
                                   params
                            else params)))"
proof -
  have range: "0 \<le> mid_rank workers \<and> mid_rank workers < int workers"
    using assms(1) by (rule mid_rank_in_range)
  have other: "int rank \<noteq> mid_rank workers \<longrightarrow>
              rotation_local method_fn shape1 centering_method params workers rank
                  (datas rank)
                = Inr (False, PInt 0, PInt 0, PInt 0, PInt 0)"
    by (simp add: rotation_local_def)
  have root: "int (nat (mid_rank workers)) = mid_rank workers" using range by simp
  have run: "execute_rotation method_fn shape1 ''find_center_vo'' params workers
               datas rank
             = (case map_of params ''ind'' of
                  None \<Rightarrow>
                    if int rank = mid_rank workers then Inl (KeyError ''ind'') else Inl Stranded
                | Some ind \<Rightarrow>
                    Inr (method_fn (datas (nat (mid_rank workers)))
                           (if ind = PStr ''mid''
                            then AList.update ''ind''
                                   (PInt (shape1 (datas (nat (mid_rank workers))) div 2))
                                   params
                            else params)))"
  proof (cases "map_of params ''ind''")
    case None
    then have at_root: "rotation_local method_fn shape1 ''find_center_vo'' params workers
                   (nat (mid_rank workers)) (datas (nat (mid_rank workers)))
                 = Inl (KeyError ''ind'')"
      using root by (simp add: rotation_local_def)
    show ?thesis
    proof (cases "int rank = mid_rank workers")
      case True
      then have "rotation_local method_fn shape1 ''find_center_vo'' params workers rank
                   (datas rank) = Inl (KeyError ''ind'')"
        using None by (simp add: rotation_local_def)
      with None True show ?thesis by (simp add: execute_rotation_def)
    next
      case False
      then have "rotation_local method_fn shape1 ''find_center_vo'' params workers rank
                   (datas rank) = Inr (False, PInt 0, PInt 0, PInt 0, PInt 0)"
        by (simp add: rotation_local_def)
      with None False at_root range show ?thesis
        by (simp add: execute_rotation_def bcast_def)
    qed
  next
    case (Some ind)
    then have at_root: "rotation_local method_fn shape1 ''find_center_vo'' params workers
                   (nat (mid_rank workers)) (datas (nat (mid_rank workers)))
       = Inr (True, method_fn (datas (nat (mid_rank workers)))
                      (if ind = PStr ''mid''
                       then AList.update ''ind''
                              (PInt (shape1 (datas (nat (mid_rank workers))) div 2))
                              params
                       else params), PInt 0, PInt 0, PInt 0)"
      using root by (simp add: rotation_local_def)
    have mine: "\<exists>r. rotation_local method_fn shape1 ''find_center_vo'' params workers
                   rank (datas rank) = Inr r"
      using Some by (auto simp add: rotation_local_def)
    from mine at_root range Some show ?thesis
      by (auto simp add: execute_rotation_def bcast_def)
  qed
  from mid_rank_eq [of workers] range other run show ?thesis by blast
qed

theorem C9_coordinating_worker_witness:
  "(0::nat) < 5 \<and> (4::nat) < 5
   \<and> mid_rank 5 = 2
   \<and> execute_rotation centre_of_block (\<lambda>block. 2160) ''find_center_vo''
         [(''ind'', PStr ''mid'')] 5 block_of_worker 4
       = Inr (PInt 207)
   \<and> execute_rotation centre_of_block (\<lambda>block. 2160) ''find_center_vo'' [] 5 block_of_worker 2
       = Inl (KeyError ''ind'')
   \<and> execute_rotation centre_of_block (\<lambda>block. 2160) ''find_center_vo'' [] 5 block_of_worker 4
       = Inl Stranded"
proof -
  have five: "mid_rank 5 = 2" by code_simp
  from C9_coordinating_worker [of 5 4 centre_of_block "\<lambda>block. 2160" "''find_center_vo''"
         "[(''ind'', PStr ''mid'')]" block_of_worker]
  have with_ind: "execute_rotation centre_of_block (\<lambda>block. 2160) ''find_center_vo''
         [(''ind'', PStr ''mid'')] 5 block_of_worker 4
       = Inr (PInt 207)"
    by (simp add: five centre_of_block_def block_of_worker_def)
  from C9_coordinating_worker [of 5 2 centre_of_block "\<lambda>block. 2160" "''find_center_vo''"
         "[]" block_of_worker]
  have at_root: "execute_rotation centre_of_block (\<lambda>block. 2160) ''find_center_vo'' []
         5 block_of_worker 2 = Inl (KeyError ''ind'')"
    by (simp add: five)
  from C9_coordinating_worker [of 5 4 centre_of_block "\<lambda>block. 2160" "''find_center_vo''"
         "[]" block_of_worker]
  have elsewhere: "execute_rotation centre_of_block (\<lambda>block. 2160) ''find_center_vo'' []
         5 block_of_worker 4 = Inl Stranded"
    by (simp add: five)
  from five with_ind at_root elsewhere show ?thesis by simp
qed

text \<open>
  C9, the claim as stated: the coordinating rank would be \<open>round(n/2 + 0.1)\<close>. With five
  workers that is 3, while the code selects 2; with a single worker it is 1, a rank that
  does not exist, while the code selects 0.
\<close>

theorem C9_rank_differs_from_claim:
  "mid_rank 5 = 2 \<and> claimed_mid_rank 5 = 3 \<and> mid_rank 1 = 0 \<and> claimed_mid_rank 1 = 1"
  by code_simp

section \<open>Properties of the executor\<close>

lemma sweep_loop_result:
  "sweep_loop w m n h vals (p, out, made)
     = (if vals = [] then p else AList.update n (last vals) p,
        out @ map (\<lambda>val. w m (AList.update n val p) h) vals,
        made @ map (\<lambda>val. CallWrapper m (AList.update n val p) h) vals)"
proof (induction vals arbitrary: p out made)
  case Nil
  then show ?case by simp
next
  case (Cons val vals)
  show ?case by (simp add: Cons.IH Let_def)
qed

text \<open>
  The body of the loop over \<open>data_in\<close> for one input dataset of a step under a sweep with
  a single output name: one call of the wrapper per value, the list of results stored.
\<close>

lemma sweep_dataset_result:
  assumes "func_name (method_func current_func) = mname" and "mname \<noteq> ''save_to_images''"
    and "param_sweep_name info = Some sweep_name" and "sweep_name \<noteq> []"
    and "dict_datasets_pipeline s in_dataset = Some v"
    and "in_dataset_idx < length (data_out info)"
    and "data_out info ! in_dataset_idx = OutName out_name"
    and "wrapper_func current_func = Some func_wrapper"
    and "reslice_step env info reslice_info in_dataset 0 v s = (None, arr, s1)"
    and "stats_step env current_func in_dataset arr params s1 = (None, params', s2)"
  shows "run_dataset env current_func info reslice_info in_dataset_idx in_dataset last_i
             (params, httomo, s)
           = (None,
              (if param_sweep_vals info = [] then params'
               else AList.update sweep_name (last (param_sweep_vals info)) params',
               AList.update ''data'' arr httomo,
               s2\<lparr>calls := calls s2
                     @ map (\<lambda>val. CallWrapper mname (AList.update sweep_name val params')
                                     (AList.update ''data'' arr httomo))
                         (param_sweep_vals info),
                  dict_datasets_pipeline := (dict_datasets_pipeline s2)
                     (out_name \<mapsto>
                        PList (map (\<lambda>val. func_wrapper mname
                                             (AList.update sweep_name val params')
                                             (AList.update ''data'' arr httomo))
                                 (param_sweep_vals info)))\<rparr>),
              Some 0)"
proof -
  have arrs: "input_arrays mname info (dict_datasets_pipeline s) in_dataset = Inr [v]"
    using assms(2,3,4,5) by (simp add: input_arrays_def)
  have inv: "invoke_step func_wrapper mname info (OutName out_name) 0
               (params', AList.update ''data'' arr httomo, [], s2)
          = (None,
             (if param_sweep_vals info = [] then params'
              else AList.update sweep_name (last (param_sweep_vals info)) params',
              AList.update ''data'' arr httomo,
              map (\<lambda>val. func_wrapper mname (AList.update sweep_name val params')
                            (AList.update ''data'' arr httomo)) (param_sweep_vals info),
              s2\<lparr>calls := calls s2
                    @ map (\<lambda>val. CallWrapper mname (AList.update sweep_name val params')
                                    (AList.update ''data'' arr httomo))
                        (param_sweep_vals info),
                 dict_datasets_pipeline := (dict_datasets_pipeline s2)
                    (out_name \<mapsto>
                       PList (map (\<lambda>val. func_wrapper mname
                                            (AList.update sweep_name val params')
                                            (AList.update ''data'' arr httomo))
                                (param_sweep_vals info)))\<rparr>))"
    using assms(2,3,4) by (simp add: invoke_step_def sweep_loop_result)
  have one: "run_array env current_func info reslice_info in_dataset (OutName out_name) 0 v
               (params, httomo, [], s)
          = invoke_step func_wrapper mname info (OutName out_name) 0
               (params', AList.update ''data'' arr httomo, [], s2)"
    using assms(1,2,8,9,10) by (simp add: run_array_def Let_def)
  show ?thesis
    using arrs one inv assms(1,3,4,6,7)
    by (simp add: run_dataset_def Let_def)
qed

text \<open>
  C6. For a step under a parameter sweep with a single input and a single output name
  (and other than the saver, which has no output dataset), \<open>run_method\<close> calls the wrapper
  once per value of the sweep, in order, each time with the swept parameter set to that
  value, stores the list of the results in the same order under the output name and
  hands that registry to \<open>postrun_method\<close>. \<open>postrun_method\<close> (a collaborator, the
  persistence step) leaving the entry under the output name as it is, the list is the
  entry under that name when \<open>run_method\<close> returns.
\<close>

theorem C6_sweep_collects_results:
  assumes "prerun_method env idx save_all misc_params current_func prev_func next_func
             (dict_datasets_pipeline s) (glob_stats s) reslice_info = (info, reslice_info')"
    and "func_name (method_func current_func) = mname" and "mname \<noteq> ''save_to_images''"
    and "param_sweep_name info = Some sweep_name" and "sweep_name \<noteq> []"
    and "data_in info = [in_dataset]" and "data_out info = [OutName out_name]"
    and "dict_datasets_pipeline s in_dataset = Some v"
    and "wrapper_func current_func = Some func_wrapper"
    and "reslice_step env info reslice_info' in_dataset 0 v s = (None, arr, s1)"
    and "stats_step env current_func in_dataset arr (dict_params_method info) s1
           = (None, params', s2)"
    and "\<And>info' entry registry func i.
           postrun_method env info' entry registry func i out_name = registry out_name"
  shows "\<exists>s'. run_method env idx save_all misc_params current_func prev_func next_func
                 reslice_info s
               = (None, s', reslice_info')
           \<and> dict_datasets_pipeline s'
               = postrun_method env
                   (info\<lparr>dict_params_method :=
                            (if param_sweep_vals info = [] then params'
                             else AList.update sweep_name (last (param_sweep_vals info)) params'),
                         dict_httomo_params :=
                            AList.update ''data'' arr (dict_httomo_params info)\<rparr>)
                   (OutName out_name)
                   ((dict_datasets_pipeline s2)
                      (out_name \<mapsto>
                         PList (map (\<lambda>val. func_wrapper mname
                                              (AList.update sweep_name val params')
                                              (AList.update ''data'' arr
                                                 (dict_httomo_params info)))
                                  (param_sweep_vals info))))
                   current_func 0
           \<and> dict_datasets_pipeline s' out_name
               = Some (PList (map (\<lambda>val. func_wrapper mname
                                             (AList.update sweep_name val params')
                                             (AList.update ''data'' arr (dict_httomo_params info)))
                                 (param_sweep_vals info)))
           \<and> calls s'
               = calls s2 @ map (\<lambda>val. CallWrapper mname (AList.update sweep_name val params')
                                         (AList.update ''data'' arr (dict_httomo_params info)))
                              (param_sweep_vals info)"
proof -
  let ?httomo = "AList.update ''data'' arr (dict_httomo_params info)"
  let ?last = "if param_sweep_vals info = [] then params'
               else AList.update sweep_name (last (param_sweep_vals info)) params'"
  let ?results = "map (\<lambda>val. func_wrapper mname (AList.update sweep_name val params') ?httomo)
                    (param_sweep_vals info)"
  let ?made = "map (\<lambda>val. CallWrapper mname (AList.update sweep_name val params') ?httomo)
                 (param_sweep_vals info)"
  let ?stored = "s2\<lparr>calls := calls s2 @ ?made,
                     dict_datasets_pipeline :=
                       (dict_datasets_pipeline s2)(out_name \<mapsto> PList ?results)\<rparr>"
  have len: "0 < length (data_out info)" and out: "data_out info ! 0 = OutName out_name"
    using assms(7) by simp_all
  have one: "run_dataset env current_func info reslice_info' 0 in_dataset None
         (dict_params_method info, dict_httomo_params info, s)
       = (None, (?last, ?httomo, ?stored), Some 0)"
    using sweep_dataset_result [OF assms(2,3,4,5,8) len out assms(9,10,11),
            of None "dict_httomo_params info"] .
  let ?final = "?stored\<lparr>dict_datasets_pipeline :=
                   postrun_method env
                     (info\<lparr>dict_params_method := ?last, dict_httomo_params := ?httomo\<rparr>)
                     (OutName out_name) (dict_datasets_pipeline ?stored) current_func 0\<rparr>"
  have all: "run_datasets env current_func info reslice_info' 0 (data_in info) None
               (dict_params_method info, dict_httomo_params info, s) = (None, ?final)"
    using assms(2,3) by (simp add: assms(6) one out)
  have run: "run_method env idx save_all misc_params current_func prev_func next_func
                 reslice_info s = (None, ?final, reslice_info')"
    using assms(1) all by (simp add: run_method_def)
  have handed: "dict_datasets_pipeline ?final
                  = postrun_method env
                      (info\<lparr>dict_params_method := ?last, dict_httomo_params := ?httomo\<rparr>)
                      (OutName out_name)
                      ((dict_datasets_pipeline s2)(out_name \<mapsto> PList ?results))
                      current_func 0"
    by simp
  have entry: "dict_datasets_pipeline ?final out_name = Some (PList ?results)"
    by (simp add: assms(12))
  have made: "calls ?final = calls s2 @ ?made" by simp
  from run handed entry made show ?thesis by blast
qed

theorem C6_sweep_collects_results_witness:
  "param_sweep_vals
       (fst (prerun_method example_env 2 False []
               (filter_task (PTuple [PInt 10, PInt 20, PInt 30]) (PStr ''tomo'') True)
               (filter_task (PInt 3) (PStr ''tomo'') False) None
               (dict_datasets_pipeline loaded_state) (glob_stats loaded_state) no_reslice_info))
     = [PInt 10, PInt 20, PInt 30]
   \<and> fst (run_method example_env 2 False []
            (filter_task (PTuple [PInt 10, PInt 20, PInt 30]) (PStr ''tomo'') True)
            (filter_task (PInt 3) (PStr ''tomo'') False) None no_reslice_info loaded_state)
       = None
   \<and> dict_datasets_pipeline
         (fst (snd (run_method example_env 2 False []
            (filter_task (PTuple [PInt 10, PInt 20, PInt 30]) (PStr ''tomo'') True)
            (filter_task (PInt 3) (PStr ''tomo'') False) None no_reslice_info loaded_state)))
         ''tomo''
       = Some (PList [PArr 14, PArr 24, PArr 34])"
proof -
  let ?task = "filter_task (PTuple [PInt 10, PInt 20, PInt 30]) (PStr ''tomo'') True
                 :: int MethodFunc"
  let ?prev = "filter_task (PInt 3) (PStr ''tomo'') False :: int MethodFunc"
  obtain info ri where pre: "prerun_method example_env 2 False [] ?task ?prev None
             (dict_datasets_pipeline loaded_state) (glob_stats loaded_state) no_reslice_info
           = (info, ri)"
    by (cases "prerun_method example_env 2 False [] ?task ?prev None
             (dict_datasets_pipeline loaded_state) (glob_stats loaded_state) no_reslice_info")
  then have info: "info = fst (prerun_by_spec 2 False [] ?task ?prev None
             (dict_datasets_pipeline loaded_state) (glob_stats loaded_state) no_reslice_info)"
    and ri: "ri = no_reslice_info"
    by (auto simp add: example_env_def prerun_by_spec_def no_reslice_info_def Let_def)
  have a2: "func_name (method_func ?task) = ''median_filter''" by (simp add: filter_task_def)
  have a3: "''median_filter'' \<noteq> ''save_to_images''" by simp
  have a4: "param_sweep_name info = Some ''size''"
    by (simp add: info prerun_by_spec_def filter_task_def Let_def)
  have a5: "''size'' \<noteq> []" by simp
  have a6: "data_in info = [''tomo'']"
    by (simp add: info prerun_by_spec_def filter_task_def Let_def)
  have a7: "data_out info = [OutName ''tomo'']"
    by (simp add: info prerun_by_spec_def filter_task_def Let_def)
  have a8: "dict_datasets_pipeline loaded_state ''tomo'' = Some (PArr 4)"
    by (simp add: loaded_state_def)
  have a9: "wrapper_func ?task = Some add_size" by (simp add: filter_task_def)
  have a10: "reslice_step example_env info ri ''tomo'' 0 (PArr 4) loaded_state
              = (None, PArr 4, loaded_state)"
    by (simp add: reslice_step_def info prerun_by_spec_def no_reslice_info_def Let_def)
  have a11: "stats_step example_env ?task ''tomo'' (PArr 4) (dict_params_method info)
               loaded_state
              = (None, dict_params_method info, loaded_state)"
    by (simp add: stats_step_def filter_task_def)
  have a12: "\<And>info' entry registry func i.
           postrun_method example_env info' entry registry func i ''tomo'' = registry ''tomo''"
    by (simp add: example_env_def)
  have vals: "param_sweep_vals info = [PInt 10, PInt 20, PInt 30]"
    by (simp add: info prerun_by_spec_def filter_task_def Let_def)
  have httomo: "dict_httomo_params info = []"
    by (simp add: info prerun_by_spec_def Let_def)
  have params: "dict_params_method info = [(''method_name'', PStr ''median_filter'')]"
    by (simp add: info prerun_by_spec_def filter_task_def Let_def)
  from C6_sweep_collects_results [OF pre a2 a3 a4 a5 a6 a7 a8 a9 a10 a11 a12]
  obtain s' where run: "run_method example_env 2 False [] ?task ?prev None no_reslice_info
                          loaded_state = (None, s', ri)"
    and entry: "dict_datasets_pipeline s' ''tomo''
               = Some (PList (map (\<lambda>val. add_size ''median_filter''
                                             (AList.update ''size'' val (dict_params_method info))
                                             (AList.update ''data'' (PArr 4)
                                                (dict_httomo_params info)))
                                 (param_sweep_vals info)))"
    by blast
  from entry have "dict_datasets_pipeline s' ''tomo''
                     = Some (PList [PArr 14, PArr 24, PArr 34])"
    by (simp add: vals httomo params add_size_def)
  with run vals pre show ?thesis by simp
qed

lemma assign_patterns_error:
  "assign_patterns mi ms = Inl e \<Longrightarrow> \<exists>p m. e = ValueError (InvalidPattern p m)"
proof (induction ms)
  case Nil
  then show ?case by simp
next
  case (Cons m ms)
  then show ?case
    by (auto simp add: assign_pattern_to_method_def Let_def split: sum.splits if_splits)
qed

lemma plan_pipeline_error:
  assumes "plan_pipeline mi ms = Inl e"
  shows "e = IndexError \<or> (\<exists>p m. e = ValueError (InvalidPattern p m))
           \<or> (\<exists>n. e = ValueError (TooManySweeps n))"
proof (cases "assign_patterns mi ms")
  case (Inl e')
  with assms have "e = e'" by (simp add: plan_pipeline_def)
  with Inl show ?thesis using assign_patterns_error by blast
next
  case (Inr wp)
  show ?thesis
  proof (cases "check_if_should_reslice wp")
    case (Inl e')
    then have "e' = IndexError" by (cases wp) (simp_all add: check_if_should_reslice_def)
    with assms Inr Inl show ?thesis by (simp add: plan_pipeline_def)
  next
    case r: (Inr mfs)
    show ?thesis
    proof (cases "determine_platform_sections (drop 1 mfs)")
      case (Inl e')
      then have "e' = IndexError"
        by (cases "drop 1 mfs") (simp_all add: determine_platform_sections_def)
      with assms Inr r Inl show ?thesis by (simp add: plan_pipeline_def)
    next
      case s: (Inr secs)
      with assms Inr r show ?thesis
        by (auto simp add: plan_pipeline_def Let_def split: if_splits)
    qed
  qed
qed

text \<open>
  C8 (as amended). A parameter sweep on the image saver, or on a step whose first output
  entry is a list of names, is a fatal \<open>ValueError\<close> raised by \<open>run_method\<close> when the run
  reaches that step: it is raised on the step's first input dataset, before any
  collaborator is called for the step and with the state as the step found it. Planning
  never raises it.
\<close>

theorem C8_sweep_refused_when_step_runs:
  assumes "prerun_method env idx save_all misc_params current_func prev_func next_func
             (dict_datasets_pipeline s) (glob_stats s) reslice_info = (info, reslice_info')"
    and "data_in info = in_dataset # more_inputs"
    and "param_sweep_name info = Some sweep_name" and "sweep_name \<noteq> []"
    and "func_name (method_func current_func) = ''save_to_images''
         \<or> (dict_datasets_pipeline s in_dataset \<noteq> None \<and> data_out info \<noteq> []
             \<and> is_name_list (hd (data_out info)))"
  shows "run_method env idx save_all misc_params current_func prev_func next_func reslice_info s
           = (Some (ValueError (if func_name (method_func current_func) = ''save_to_images''
                                then SweepOnSaver else SweepOnMultiOutput)),
              s, reslice_info')
         \<and> plan_pipeline method_info method_funcs \<noteq> Inl (ValueError SweepOnSaver)
         \<and> plan_pipeline method_info method_funcs \<noteq> Inl (ValueError SweepOnMultiOutput)"
proof -
  let ?st = "(dict_params_method info, dict_httomo_params info, s)"
  have first: "run_dataset env current_func info reslice_info' 0 in_dataset None ?st
         = (Some (ValueError (if func_name (method_func current_func) = ''save_to_images''
                              then SweepOnSaver else SweepOnMultiOutput)),
            ?st, None)"
  proof (cases "func_name (method_func current_func) = ''save_to_images''")
    case True
    with assms(3) show ?thesis by (simp add: run_dataset_def input_arrays_def)
  next
    case False
    with assms(5) obtain v where v: "dict_datasets_pipeline s in_dataset = Some v"
      and out: "data_out info \<noteq> []" "is_name_list (hd (data_out info))"
      by auto
    from out have "is_name_list (data_out info ! 0)" by (simp add: hd_conv_nth)
    with False v out(1) assms(3,4) show ?thesis
      by (simp add: run_dataset_def input_arrays_def Let_def)
  qed
  have "run_datasets env current_func info reslice_info' 0 (data_in info) None ?st
         = (Some (ValueError (if func_name (method_func current_func) = ''save_to_images''
                              then SweepOnSaver else SweepOnMultiOutput)), s)"
    by (simp add: assms(2) first)
  with assms(1) have run: "run_method env idx save_all misc_params current_func prev_func
             next_func reslice_info s
           = (Some (ValueError (if func_name (method_func current_func) = ''save_to_images''
                                then SweepOnSaver else SweepOnMultiOutput)),
              s, reslice_info')"
    by (simp add: run_method_def)
  have "plan_pipeline method_info method_funcs \<noteq> Inl (ValueError SweepOnSaver)"
    and "plan_pipeline method_info method_funcs \<noteq> Inl (ValueError SweepOnMultiOutput)"
    using plan_pipeline_error [of method_info method_funcs] by auto
  with run show ?thesis by simp
qed

theorem C8_sweep_refused_when_step_runs_witness:
  "run_method example_env 2 False []
       (filter_task (PTuple [PInt 10, PInt 20, PInt 30]) (PList [PStr ''low'', PStr ''high'']) True)
       (filter_task (PInt 3) (PStr ''tomo'') False) None no_reslice_info initial_state
     = (Some (ValueError SweepOnMultiOutput), initial_state, no_reslice_info)"
proof -
  let ?task = "filter_task (PTuple [PInt 10, PInt 20, PInt 30])
                 (PList [PStr ''low'', PStr ''high'']) True :: int MethodFunc"
  let ?prev = "filter_task (PInt 3) (PStr ''tomo'') False :: int MethodFunc"
  obtain info ri where pre: "prerun_method example_env 2 False [] ?task ?prev None
             (dict_datasets_pipeline initial_state) (glob_stats initial_state) no_reslice_info
           = (info, ri)"
    by (cases "prerun_method example_env 2 False [] ?task ?prev None
             (dict_datasets_pipeline initial_state) (glob_stats initial_state) no_reslice_info")
  then have info: "info = fst (prerun_by_spec 2 False [] ?task ?prev None
             (dict_datasets_pipeline initial_state) (glob_stats initial_state) no_reslice_info)"
    and ri: "ri = no_reslice_info"
    by (auto simp add: example_env_def prerun_by_spec_def no_reslice_info_def Let_def)
  have b2: "data_in info = ''tomo'' # []"
    by (simp add: info prerun_by_spec_def filter_task_def Let_def)
  have b3: "param_sweep_name info = Some ''size''"
    by (simp add: info prerun_by_spec_def filter_task_def Let_def)
  have b4: "''size'' \<noteq> []" by simp
  have b5: "func_name (method_func ?task) = ''save_to_images''
         \<or> (dict_datasets_pipeline initial_state ''tomo'' \<noteq> None \<and> data_out info \<noteq> []
             \<and> is_name_list (hd (data_out info)))"
    by (simp add: info prerun_by_spec_def filter_task_def initial_state_def Let_def)
  have name: "func_name (method_func ?task) \<noteq> ''save_to_images''" by (simp add: filter_task_def)
  from C8_sweep_refused_when_step_runs [OF pre b2 b3 b4 b5,
         where method_info = "get_method_info example_env"
           and method_funcs = sweep_multi_output_pipeline] name ri
  show ?thesis by simp
qed

text \<open>
  C8, the claim as stated: the error would be raised during plan resolution, before any
  data is processed. For a pipeline of the loader, a plain filter and a filter that
  sweeps a parameter and names two outputs, planning succeeds; the run then calls the
  loader and the first filter, which replaces the loaded array, and only then raises.
\<close>

theorem C8_sweep_error_after_data_processed:
  "map_sum id (\<lambda>(ms, plan, sections). plan)
     (plan_pipeline (get_method_info example_env) sweep_multi_output_pipeline)
     = Inr [False, False, False]
   \<and> (case run_tasks example_env (PObj ''in_file'') 1 0 1 False None
             sweep_multi_output_pipeline initial_stats initial_state of
        (err, stats, s) \<Rightarrow> (err, calls s, dict_datasets_pipeline s ''tomo''))
     = (Some (ValueError SweepOnMultiOutput),
        [CallLoader [(''name'', PStr ''tomo''), (''in_file'', PObj ''in_file''),
                     (''dimension'', PInt 1), (''pad'', PInt 0), (''comm'', PObj ''comm''),
                     (''preview'', PList [PNone])],
         CallWrapper ''median_filter'' [(''size'', PInt 3), (''ncore'', PInt 1)]
           [(''data'', PArr 1)]],
        Some (PArr 4))"
  by (simp add: run_tasks_def plan_pipeline_def sweep_multi_output_pipeline_def loader_task_def
      filter_task_def example_env_def initial_state_def initial_stats_def
      assign_pattern_to_method_def check_if_should_reslice_def determine_platform_sections_def
      check_params_for_sweep_def run_loader_def possible_extra_params_def run_method_def
      prerun_by_spec_def run_dataset_def input_arrays_def run_array_def reslice_step_def
      stats_step_def invoke_step_def store_result_def add_size_def upt_rec Let_def)

section \<open>Properties of the pipeline run\<close>

lemma assign_pattern_parameters:
  "assign_pattern_to_method mi m = Inr m' \<Longrightarrow> parameters m' = parameters m"
  by (auto simp add: assign_pattern_to_method_def Let_def split: if_splits)

lemma assign_patterns_parameters:
  "assign_patterns mi ms = Inr ms' \<Longrightarrow> map parameters ms' = map parameters ms"
proof (induction ms arbitrary: ms')
  case Nil
  then show ?case by simp
next
  case (Cons m ms)
  then show ?case
    by (auto split: sum.splits dest: assign_pattern_parameters)
qed

lemma reslice_loop_parameters:
  "map parameters (reslice_loop cur ms) = map parameters ms"
  by (induction ms arbitrary: cur) simp_all

lemma check_if_should_reslice_parameters:
  "check_if_should_reslice ms = Inr ms' \<Longrightarrow> map parameters ms' = map parameters ms"
  using reslice_loop_parameters [of "MethodFunc.pattern (hd ms)" ms]
  by (cases ms) (auto simp add: check_if_should_reslice_def)

lemma check_if_should_reslice_length:
  "check_if_should_reslice ms = Inr ms' \<Longrightarrow> length ms' = length ms"
  by (cases ms) (auto simp add: check_if_should_reslice_def reslice_loop_length)

lemma assign_patterns_length:
  "assign_patterns mi ms = Inr ms' \<Longrightarrow> length ms' = length ms"
  using assign_patterns_parameters [of mi ms ms'] by (metis length_map)

lemma sweeps_of_parameters:
  "sum_list (map (\<lambda>m. check_params_for_sweep (parameters m)) ms)
     = sum_list (map check_params_for_sweep (map parameters ms))"
  by (simp add: comp_def)

lemma plan_pipeline_two_sweeps:
  assumes "1 < sum_list (map (\<lambda>m. check_params_for_sweep (parameters m)) method_funcs0)"
  shows "plan_pipeline mi method_funcs0
           = Inl (case assign_patterns mi method_funcs0 of
                    Inl e \<Rightarrow> e
                  | Inr with_patterns \<Rightarrow>
                      if length method_funcs0 < 2 then IndexError
                      else ValueError (TooManySweeps
                             (sum_list (map (\<lambda>m. check_params_for_sweep (parameters m))
                                          method_funcs0))))"
proof (cases "assign_patterns mi method_funcs0")
  case (Inl e)
  then show ?thesis by (simp add: plan_pipeline_def)
next
  case (Inr wp)
  have lwp: "length wp = length method_funcs0" using Inr by (rule assign_patterns_length)
  have pwp: "map parameters wp = map parameters method_funcs0"
    using Inr by (rule assign_patterns_parameters)
  show ?thesis
  proof (cases "check_if_should_reslice wp")
    case (Inl e)
    then have "wp = []" and "e = IndexError"
      by (cases wp; simp add: check_if_should_reslice_def)+
    with Inl Inr lwp show ?thesis by (simp add: plan_pipeline_def)
  next
    case r: (Inr mfs)
    have lm: "length mfs = length method_funcs0"
      using check_if_should_reslice_length [OF r] lwp by simp
    have pm: "map parameters mfs = map parameters method_funcs0"
      using check_if_should_reslice_parameters [OF r] pwp by simp
    have sw: "sum_list (map (\<lambda>m. check_params_for_sweep (parameters m)) mfs)
                = sum_list (map (\<lambda>m. check_params_for_sweep (parameters m)) method_funcs0)"
      by (simp only: sweeps_of_parameters pm)
    show ?thesis
    proof (cases "length method_funcs0 < 2")
      case True
      with lm have "drop 1 mfs = []" by simp
      then have "determine_platform_sections (drop 1 mfs) = Inl IndexError"
        by (simp add: determine_platform_sections_def)
      with Inr r True show ?thesis by (simp add: plan_pipeline_def)
    next
      case False
      with lm have "drop 1 mfs \<noteq> []" by simp
      then obtain secs where "determine_platform_sections (drop 1 mfs) = Inr secs"
        by (cases "drop 1 mfs") (auto simp add: determine_platform_sections_def)
      with Inr r False sw assms show ?thesis by (simp add: plan_pipeline_def)
    qed
  qed
qed

text \<open>
  C7. If the steps of the pipeline together declare more than one tuple-valued parameter,
  \<open>run_tasks\<close> raises during planning: the state it leaves is the state it was given, so
  no collaborator (loader, reslice, wrapper) was called and the registry is untouched.
  The error is the \<open>ValueError\<close> of the sweep check unless planning failed earlier (an
  invalid pattern, or a pipeline of the loader alone).
\<close>

theorem C7_two_sweeps_abort_before_execution:
  assumes "1 < sum_list (map (\<lambda>m. check_params_for_sweep (parameters m)) method_funcs0)"
  shows "run_tasks env in_file dimension pad ncore save_all dir method_funcs0 all_stats s
           = (Some (case assign_patterns (get_method_info env) method_funcs0 of
                      Inl e \<Rightarrow> e
                    | Inr with_patterns \<Rightarrow>
                        if length method_funcs0 < 2 then IndexError
                        else ValueError (TooManySweeps
                               (sum_list (map (\<lambda>m. check_params_for_sweep (parameters m))
                                            method_funcs0)))),
              all_stats, s)"
  by (simp add: run_tasks_def plan_pipeline_two_sweeps [OF assms])

theorem C7_two_sweeps_abort_before_execution_witness:
  "1 < sum_list (map (\<lambda>m. check_params_for_sweep (parameters m)) two_sweeps_pipeline)
   \<and> run_tasks example_env (PObj ''in_file'') 1 0 1 False None two_sweeps_pipeline
         initial_stats initial_state
       = (Some (ValueError (TooManySweeps 2)), initial_stats, initial_state)
   \<and> calls initial_state = []"
proof -
  have two: "sum_list (map (\<lambda>m. check_params_for_sweep (parameters m)) two_sweeps_pipeline) = 2"
    by (simp add: two_sweeps_pipeline_def loader_task_def filter_task_def
        check_params_for_sweep_def)
  then have more: "1 < sum_list (map (\<lambda>m. check_params_for_sweep (parameters m))
                                  two_sweeps_pipeline)"
    by simp
  have patterns: "\<exists>ms. assign_patterns (get_method_info example_env) two_sweeps_pipeline = Inr ms"
    by (simp add: two_sweeps_pipeline_def example_env_def assign_pattern_to_method_def)
  have len: "\<not> length two_sweeps_pipeline < 2" by (simp add: two_sweeps_pipeline_def)
  from C7_two_sweeps_abort_before_execution [OF more, of example_env "PObj ''in_file''" 1 0 1
         False None initial_stats initial_state] patterns len two
  have "run_tasks example_env (PObj ''in_file'') 1 0 1 False None two_sweeps_pipeline
         initial_stats initial_state
       = (Some (ValueError (TooManySweeps 2)), initial_stats, initial_state)"
    by auto
  with more show ?thesis by (simp add: initial_state_def)
qed

end
